theory Spec2Isabelle
  imports Main "HOL-Library.Word"
begin

unbundle bit_operations_syntax

section \<open>Machine types and kernel constants (internal/sys/consts.go)\<close>

text \<open>
  Go's fixed-width integers are words: addition and subtraction wrap around, and a
  signed type differs from the unsigned one of the same width only in how its bits are
  read. Go's \<open>int\<close> (64 bits here) appears as a HOL \<open>int\<close>; a narrowing conversion
  such as \<open>int32(fd)\<close> is \<open>word_of_int\<close>, which truncates. Pointers
  (\<open>unsafe.Pointer\<close>, \<open>*Timespec\<close>, \<open>&buf[0]\<close>) are their 64-bit addresses.
\<close>

type_synonym u8 = "8 word"
type_synonym u16 = "16 word"
type_synonym u32 = "32 word"
type_synonym u64 = "64 word"
type_synonym i32 = "32 word"

definition IORING_SETUP_IOPOLL :: u32 where "IORING_SETUP_IOPOLL = 1"
definition IORING_SETUP_SQPOLL :: u32 where "IORING_SETUP_SQPOLL = 2"
definition IORING_SETUP_SQ_AFF :: u32 where "IORING_SETUP_SQ_AFF = 4"
definition IORING_SETUP_CQSIZE :: u32 where "IORING_SETUP_CQSIZE = 8"
definition IORING_SETUP_COOP_TASKRUN :: u32 where "IORING_SETUP_COOP_TASKRUN = 256"
definition IORING_SETUP_SINGLE_ISSUER :: u32 where "IORING_SETUP_SINGLE_ISSUER = 4096"
definition IORING_SETUP_DEFER_TASKRUN :: u32 where "IORING_SETUP_DEFER_TASKRUN = 8192"

definition IORING_FEAT_SINGLE_MMAP :: u32 where "IORING_FEAT_SINGLE_MMAP = 1"
definition IORING_FEAT_EXT_ARG :: u32 where "IORING_FEAT_EXT_ARG = 256"

definition IORING_ENTER_GETEVENTS :: u32 where "IORING_ENTER_GETEVENTS = 1"
definition IORING_ENTER_SQ_WAKEUP :: u32 where "IORING_ENTER_SQ_WAKEUP = 2"
definition IORING_ENTER_EXT_ARG :: u32 where "IORING_ENTER_EXT_ARG = 8"

definition IORING_SQ_NEED_WAKEUP :: u32 where "IORING_SQ_NEED_WAKEUP = 1"

section \<open>Setup parameters and options (internal/sys/types.go, ring.go)\<close>

record SQRingOffsets =
  sqo_Head :: u32
  sqo_Tail :: u32
  sqo_RingMask :: u32
  sqo_RingEntries :: u32
  sqo_Flags :: u32
  sqo_Dropped :: u32
  sqo_Array :: u32

record CQRingOffsets =
  cqo_Head :: u32
  cqo_Tail :: u32
  cqo_RingMask :: u32
  cqo_RingEntries :: u32
  cqo_Overflow :: u32
  cqo_CQEs :: u32
  cqo_Flags :: u32

record Params =
  SQEntries :: u32
  CQEntries :: u32
  Flags :: u32
  SQThreadCPU :: u32
  SQThreadIdle :: u32
  Features :: u32
  WQFd :: u32
  SQOff :: SQRingOffsets
  CQOff :: CQRingOffsets

text \<open>\<open>sys.Params{}\<close>: every field zero.\<close>

definition Params_zero :: Params where
  "Params_zero = \<lparr>SQEntries = 0, CQEntries = 0, Flags = 0, SQThreadCPU = 0,
     SQThreadIdle = 0, Features = 0, WQFd = 0,
     SQOff = \<lparr>sqo_Head = 0, sqo_Tail = 0, sqo_RingMask = 0, sqo_RingEntries = 0,
       sqo_Flags = 0, sqo_Dropped = 0, sqo_Array = 0\<rparr>,
     CQOff = \<lparr>cqo_Head = 0, cqo_Tail = 0, cqo_RingMask = 0, cqo_RingEntries = 0,
       cqo_Overflow = 0, cqo_CQEs = 0, cqo_Flags = 0\<rparr>\<rparr>"

text \<open>
  An \<open>Option\<close> is a \<open>func(*sys.Params)\<close>: here a function from the parameters to the
  updated parameters.
\<close>

type_synonym Option = "Params \<Rightarrow> Params"

definition WithSQPoll :: Option where
  "WithSQPoll p = p\<lparr>Flags := Flags p OR IORING_SETUP_SQPOLL\<rparr>"

definition WithSQPollCPU :: "u32 \<Rightarrow> Option" where
  "WithSQPollCPU cpu p =
     (p\<lparr>Flags := Flags p OR IORING_SETUP_SQ_AFF\<rparr>)\<lparr>SQThreadCPU := cpu\<rparr>"

definition WithSQPollIdle :: "u32 \<Rightarrow> Option" where
  "WithSQPollIdle ms p = p\<lparr>SQThreadIdle := ms\<rparr>"

definition WithIOPoll :: Option where
  "WithIOPoll p = p\<lparr>Flags := Flags p OR IORING_SETUP_IOPOLL\<rparr>"

definition WithCQSize :: "u32 \<Rightarrow> Option" where
  "WithCQSize sz p =
     (p\<lparr>Flags := Flags p OR IORING_SETUP_CQSIZE\<rparr>)\<lparr>CQEntries := sz\<rparr>"

definition WithSingleIssuer :: Option where
  "WithSingleIssuer p = p\<lparr>Flags := Flags p OR IORING_SETUP_SINGLE_ISSUER\<rparr>"

definition WithDeferTaskrun :: Option where
  "WithDeferTaskrun p =
     p\<lparr>Flags := Flags p OR (IORING_SETUP_DEFER_TASKRUN OR IORING_SETUP_SINGLE_ISSUER)\<rparr>"

definition WithCoopTaskrun :: Option where
  "WithCoopTaskrun p = p\<lparr>Flags := Flags p OR IORING_SETUP_COOP_TASKRUN\<rparr>"

definition WithFlags :: "u32 \<Rightarrow> Option" where
  "WithFlags flags p = p\<lparr>Flags := Flags p OR flags\<rparr>"

text \<open>The loop \<open>for _, opt := range opts { opt(&params) }\<close> of \<open>New\<close>.\<close>

definition apply_opts :: "Option list \<Rightarrow> Params \<Rightarrow> Params" where
  "apply_opts opts p = fold (\<lambda>opt q. opt q) opts p"

section \<open>Submission and completion entries (internal/sys/types.go)\<close>

record SQE =
  Opcode :: u8
  Flags_sqe :: u8
  Ioprio :: u16
  Fd :: i32
  Off :: u64
  Addr :: u64
  Len :: u32
  OpFlags :: u32
  UserData :: u64
  BufIndex :: u16
  Personality :: u16
  SpliceFdIn :: i32
  Addr3 :: u64

record CQE =
  UserData_cqe :: u64
  Res :: i32
  Flags_cqe :: u32

text \<open>\<open>SQE{}\<close>, the value \<open>Reset\<close> stores.\<close>

definition SQE_zero :: SQE where
  "SQE_zero = \<lparr>Opcode = 0, Flags_sqe = 0, Ioprio = 0, Fd = 0, Off = 0, Addr = 0, Len = 0,
     OpFlags = 0, UserData = 0, BufIndex = 0, Personality = 0, SpliceFdIn = 0, Addr3 = 0\<rparr>"

definition Reset :: "SQE \<Rightarrow> SQE" where
  "Reset s = SQE_zero"

definition SetSpliceOffIn :: "u64 \<Rightarrow> SQE \<Rightarrow> SQE" where
  "SetSpliceOffIn off s = s\<lparr>Addr := off\<rparr>"

definition SetBufGroup :: "u16 \<Rightarrow> SQE \<Rightarrow> SQE" where
  "SetBufGroup grp s = s\<lparr>BufIndex := grp\<rparr>"

text \<open>Operation codes: the \<open>iota\<close> enumeration of consts.go, as the byte stored.\<close>

definition IORING_OP_NOP :: u8 where "IORING_OP_NOP = 0"
definition IORING_OP_READV :: u8 where "IORING_OP_READV = 1"
definition IORING_OP_WRITEV :: u8 where "IORING_OP_WRITEV = 2"
definition IORING_OP_FSYNC :: u8 where "IORING_OP_FSYNC = 3"
definition IORING_OP_READ_FIXED :: u8 where "IORING_OP_READ_FIXED = 4"
definition IORING_OP_WRITE_FIXED :: u8 where "IORING_OP_WRITE_FIXED = 5"
definition IORING_OP_POLL_ADD :: u8 where "IORING_OP_POLL_ADD = 6"
definition IORING_OP_POLL_REMOVE :: u8 where "IORING_OP_POLL_REMOVE = 7"
definition IORING_OP_SENDMSG :: u8 where "IORING_OP_SENDMSG = 9"
definition IORING_OP_RECVMSG :: u8 where "IORING_OP_RECVMSG = 10"
definition IORING_OP_TIMEOUT :: u8 where "IORING_OP_TIMEOUT = 11"
definition IORING_OP_TIMEOUT_REMOVE :: u8 where "IORING_OP_TIMEOUT_REMOVE = 12"
definition IORING_OP_ACCEPT :: u8 where "IORING_OP_ACCEPT = 13"
definition IORING_OP_ASYNC_CANCEL :: u8 where "IORING_OP_ASYNC_CANCEL = 14"
definition IORING_OP_LINK_TIMEOUT :: u8 where "IORING_OP_LINK_TIMEOUT = 15"
definition IORING_OP_CONNECT :: u8 where "IORING_OP_CONNECT = 16"
definition IORING_OP_OPENAT :: u8 where "IORING_OP_OPENAT = 18"
definition IORING_OP_CLOSE :: u8 where "IORING_OP_CLOSE = 19"
definition IORING_OP_STATX :: u8 where "IORING_OP_STATX = 21"
definition IORING_OP_READ :: u8 where "IORING_OP_READ = 22"
definition IORING_OP_WRITE :: u8 where "IORING_OP_WRITE = 23"
definition IORING_OP_SEND :: u8 where "IORING_OP_SEND = 26"
definition IORING_OP_RECV :: u8 where "IORING_OP_RECV = 27"
definition IORING_OP_SPLICE :: u8 where "IORING_OP_SPLICE = 30"
definition IORING_OP_SHUTDOWN :: u8 where "IORING_OP_SHUTDOWN = 34"
definition IORING_OP_SOCKET :: u8 where "IORING_OP_SOCKET = 45"
definition IORING_OP_LAST :: u32 where "IORING_OP_LAST = 58"

definition IOSQE_IO_LINK :: u8 where "IOSQE_IO_LINK = 4"
definition IOSQE_ASYNC :: u8 where "IOSQE_ASYNC = 16"
definition IOSQE_BUFFER_SELECT :: u8 where "IOSQE_BUFFER_SELECT = 32"

definition IORING_POLL_ADD_MULTI :: u32 where "IORING_POLL_ADD_MULTI = 1"
definition IORING_ACCEPT_MULTISHOT :: u32 where "IORING_ACCEPT_MULTISHOT = 1"
definition IORING_RECV_MULTISHOT :: u16 where "IORING_RECV_MULTISHOT = 2"

definition IORING_REGISTER_BUFFERS :: u32 where "IORING_REGISTER_BUFFERS = 0"
definition IORING_UNREGISTER_BUFFERS :: u32 where "IORING_UNREGISTER_BUFFERS = 1"
definition IORING_REGISTER_FILES :: u32 where "IORING_REGISTER_FILES = 2"
definition IORING_UNREGISTER_FILES :: u32 where "IORING_UNREGISTER_FILES = 3"
definition IORING_REGISTER_EVENTFD :: u32 where "IORING_REGISTER_EVENTFD = 4"
definition IORING_UNREGISTER_EVENTFD :: u32 where "IORING_UNREGISTER_EVENTFD = 5"
definition IORING_REGISTER_PROBE :: u32 where "IORING_REGISTER_PROBE = 8"

definition IORING_OFF_SQ_RING :: u64 where "IORING_OFF_SQ_RING = 0"
definition IORING_OFF_CQ_RING :: u64 where "IORING_OFF_CQ_RING = 0x8000000"
definition IORING_OFF_SQES :: u64 where "IORING_OFF_SQES = 0x10000000"

section \<open>The ring, its mapped memory and the kernel\<close>

text \<open>
  Go's \<open>error\<close> results: \<open>None\<close> is \<open>nil\<close>. The four library errors of ring.go, a
  \<open>syscall.Errno\<close> carrying its number, and the error of a cancelled context.
\<close>

datatype error = ErrRingClosed | ErrSQFull | ErrCQOverflow | ErrNotSupported
  | Errno nat | CtxErr

definition EINTR :: error where "EINTR = Errno 4"
definition EAGAIN :: error where "EAGAIN = Errno 11"
definition EINVAL :: error where "EINVAL = Errno 22"
definition ETIME :: error where "ETIME = Errno 62"

text \<open>
  The \<open>Ring\<close> struct. A mapped region (\<open>sqRing\<close>, \<open>cqRing\<close>, \<open>sqesMmap\<close>) is named
  by the mmap offset it was created with, \<open>None\<close> being the nil slice. The pointers and
  slices into the regions (\<open>sqHead\<close>, \<open>sqTail\<close>, \<open>sqFlags\<close>, \<open>sqArray\<close>, \<open>sqes\<close>,
  \<open>cqHead\<close>, ...) are views: what they point to is in the shared memory below.
  \<open>sqLock\<close> is left out: the model runs one call at a time, where a Lock/Unlock pair
  does nothing.
\<close>

record Ring =
  fd :: int
  params :: Params
  features :: u32
  sqRing :: "u64 option"
  sqEntries :: u32
  sqMask :: u32
  sqesMmap :: "u64 option"
  cqRing :: "u64 option"
  cqEntries :: u32
  cqMask :: u32
  sqPending :: u32
  closed :: bool

text \<open>
  The memory the kernel shares with the library: the words and arrays that the ring's
  pointers and slices refer to.
\<close>

record shm =
  sqHead :: u32
  sqTail :: u32
  sqFlags :: u32
  sqDropped :: u32
  sqRingEntries :: u32
  sqRingMask :: u32
  sqArray :: "u32 list"
  sqes :: "SQE list"
  cqHead :: u32
  cqTail :: u32
  cqFlags :: u32
  cqOverflow :: u32
  cqRingEntries :: u32
  cqRingMask :: u32
  cqes :: "CQE list"

datatype cell = SqHead | SqTail | SqFlags | SqDropped | SqRingEntries | SqRingMask
  | CqHead | CqTail | CqFlags | CqOverflow | CqRingEntries | CqRingMask

datatype memloc = Cell cell | SqArrayAt nat | SqeAt nat | CqeAt nat

fun cell_get :: "cell \<Rightarrow> shm \<Rightarrow> u32" where
  "cell_get SqHead m = sqHead m"
| "cell_get SqTail m = sqTail m"
| "cell_get SqFlags m = sqFlags m"
| "cell_get SqDropped m = sqDropped m"
| "cell_get SqRingEntries m = sqRingEntries m"
| "cell_get SqRingMask m = sqRingMask m"
| "cell_get CqHead m = cqHead m"
| "cell_get CqTail m = cqTail m"
| "cell_get CqFlags m = cqFlags m"
| "cell_get CqOverflow m = cqOverflow m"
| "cell_get CqRingEntries m = cqRingEntries m"
| "cell_get CqRingMask m = cqRingMask m"

fun cell_set :: "cell \<Rightarrow> u32 \<Rightarrow> shm \<Rightarrow> shm" where
  "cell_set SqHead v m = m\<lparr>sqHead := v\<rparr>"
| "cell_set SqTail v m = m\<lparr>sqTail := v\<rparr>"
| "cell_set SqFlags v m = m\<lparr>sqFlags := v\<rparr>"
| "cell_set SqDropped v m = m\<lparr>sqDropped := v\<rparr>"
| "cell_set SqRingEntries v m = m\<lparr>sqRingEntries := v\<rparr>"
| "cell_set SqRingMask v m = m\<lparr>sqRingMask := v\<rparr>"
| "cell_set CqHead v m = m\<lparr>cqHead := v\<rparr>"
| "cell_set CqTail v m = m\<lparr>cqTail := v\<rparr>"
| "cell_set CqFlags v m = m\<lparr>cqFlags := v\<rparr>"
| "cell_set CqOverflow v m = m\<lparr>cqOverflow := v\<rparr>"
| "cell_set CqRingEntries v m = m\<lparr>cqRingEntries := v\<rparr>"
| "cell_set CqRingMask v m = m\<lparr>cqRingMask := v\<rparr>"

text \<open>The region a location lies in, as \<open>mapRings\<close> lays the views out.\<close>

fun in_cq :: "cell \<Rightarrow> bool" where
  "in_cq CqHead = True"
| "in_cq CqTail = True"
| "in_cq CqFlags = True"
| "in_cq CqOverflow = True"
| "in_cq CqRingEntries = True"
| "in_cq CqRingMask = True"
| "in_cq _ = False"

fun region_of :: "Ring \<Rightarrow> memloc \<Rightarrow> u64 option" where
  "region_of r (Cell c) = (if in_cq c then cqRing r else sqRing r)"
| "region_of r (SqArrayAt i) = sqRing r"
| "region_of r (SqeAt i) = sqesMmap r"
| "region_of r (CqeAt i) = cqRing r"

text \<open>
  System calls, with the arguments the wrappers of internal/sys/syscall.go pass.
  \<open>SysEnter\<close> is \<open>sys.Enter\<close> as the library calls it (signal mask nil): it carries no
  time limit. \<open>SysEnterExt\<close> is \<open>sys.EnterExt\<close>, whose extended argument holds a
  timespec (seconds, nanoseconds).
\<close>

datatype syscall =
    SysSetup u32 Params
  | SysEnter int u32 u32 u32
  | SysEnterExt int u32 u32 u32 int int
  | SysRegister int u32 u32
  | SysMmap int u64 int
  | SysMunmap u64
  | SysClose int

datatype event = Load memloc | Store memloc | Call syscall

text \<open>
  What the kernel answers to a system call: the return value and the error number
  (\<open>n, _, errno := syscall.Syscall6(...)\<close>; zero is no error), the time the call
  took, what it wrote to the shared memory meanwhile, and for setup the parameter
  block it filled in.
\<close>

record kresp =
  kval :: int
  kerrno :: nat
  kelapsed :: nat
  kwrites :: "shm \<Rightarrow> shm"
  kparams :: Params

text \<open>
  The world a call runs in: the ring, the shared memory, the regions mapped now, a clock
  in nanoseconds, the kernel (its answer to the n-th system call), and a log of the
  memory accesses and system calls made so far. Calls run one at a time: the kernel
  writes to the shared memory while a system call is in progress, not between two
  steps of the library, so what the kernel-side poll thread does concurrently is not
  modelled.
\<close>

record world =
  ring :: Ring
  mem :: shm
  mapped :: "u64 set"
  clock :: int
  nsys :: nat
  kernel :: "nat \<Rightarrow> syscall \<Rightarrow> kresp"
  log :: "event list"

section \<open>Running a call\<close>

text \<open>
  A call either returns a value in a new world or stops abnormally: a memory fault on a
  location whose region is not mapped (or whose slice is nil), Go's index-out-of-range
  panic, or a loop cut off when its fuel is spent.
\<close>

datatype abort = SegFault memloc | IndexOutOfRange | OutOfFuel

datatype 'a exec = Done 'a world | Abort abort world

type_synonym 'a io = "world \<Rightarrow> 'a exec"

definition ret :: "'a \<Rightarrow> 'a io" where
  "ret a w = Done a w"

definition seq :: "'a io \<Rightarrow> ('a \<Rightarrow> 'b io) \<Rightarrow> 'b io" where
  "seq m f w = (case m w of Done a w' \<Rightarrow> f a w' | Abort x w' \<Rightarrow> Abort x w')"

definition abort_with :: "abort \<Rightarrow> 'a io" where
  "abort_with x w = Abort x w"

text \<open>The receiver \<open>r\<close>, read and updated.\<close>

definition self :: "Ring io" where
  "self w = Done (ring w) w"

definition update_ring :: "(Ring \<Rightarrow> Ring) \<Rightarrow> unit io" where
  "update_ring f w = Done () (w\<lparr>ring := f (ring w)\<rparr>)"

subsection \<open>Memory\<close>

text \<open>A slice or pointer can be dereferenced when it is not nil and its region is mapped.\<close>

definition region_ok :: "world \<Rightarrow> u64 option \<Rightarrow> bool" where
  "region_ok w s = (case s of None \<Rightarrow> False | Some h \<Rightarrow> h \<in> mapped w)"

definition accessible :: "world \<Rightarrow> memloc \<Rightarrow> bool" where
  "accessible w l = region_ok w (region_of (ring w) l)"

definition access :: "(memloc \<Rightarrow> event) \<Rightarrow> memloc \<Rightarrow> unit io" where
  "access ev l w =
     (if accessible w l then Done () (w\<lparr>log := log w @ [ev l]\<rparr>) else Abort (SegFault l) w)"

definition atomic_LoadUint32 :: "cell \<Rightarrow> u32 io" where
  "atomic_LoadUint32 c = seq (access Load (Cell c)) (\<lambda>_ w. Done (cell_get c (mem w)) w)"

definition atomic_StoreUint32 :: "cell \<Rightarrow> u32 \<Rightarrow> unit io" where
  "atomic_StoreUint32 c v =
     seq (access Store (Cell c)) (\<lambda>_ w. Done () (w\<lparr>mem := cell_set c v (mem w)\<rparr>))"

text \<open>
  \<open>&r.sqes[idx]\<close> and \<open>&r.cqes[idx]\<close>: taking the address checks the index against the
  slice's length; reads and writes through the pointer then touch the memory.
\<close>

definition sqe_ptr :: "u32 \<Rightarrow> nat io" where
  "sqe_ptr idx w =
     (if unat idx < length (sqes (mem w)) then Done (unat idx) w else Abort IndexOutOfRange w)"

definition sqe_load :: "nat \<Rightarrow> SQE io" where
  "sqe_load i = seq (access Load (SqeAt i)) (\<lambda>_ w. Done (sqes (mem w) ! i) w)"

definition sqe_store :: "nat \<Rightarrow> SQE \<Rightarrow> unit io" where
  "sqe_store i s =
     seq (access Store (SqeAt i))
       (\<lambda>_ w. Done () (w\<lparr>mem := (mem w)\<lparr>sqes := (sqes (mem w))[i := s]\<rparr>\<rparr>))"

text \<open>Assignments to fields of \<open>*sqe\<close> (\<open>sqe.Reset()\<close>, \<open>sqe.Opcode = ...\<close>): stores.\<close>

definition sqe_assign :: "nat \<Rightarrow> (SQE \<Rightarrow> SQE) \<Rightarrow> unit io" where
  "sqe_assign i f =
     seq (access Store (SqeAt i))
       (\<lambda>_ w. Done () (w\<lparr>mem := (mem w)\<lparr>sqes := (sqes (mem w))[i := f (sqes (mem w) ! i)]\<rparr>\<rparr>))"

definition sqArray_store :: "u32 \<Rightarrow> u32 \<Rightarrow> unit io" where
  "sqArray_store idx v w =
     (if unat idx < length (sqArray (mem w))
      then seq (access Store (SqArrayAt (unat idx)))
        (\<lambda>_ w. Done () (w\<lparr>mem := (mem w)\<lparr>sqArray := (sqArray (mem w))[unat idx := v]\<rparr>\<rparr>)) w
      else Abort IndexOutOfRange w)"

definition cqe_ptr :: "u32 \<Rightarrow> nat io" where
  "cqe_ptr idx w =
     (if unat idx < length (cqes (mem w)) then Done (unat idx) w else Abort IndexOutOfRange w)"

definition cqe_load :: "nat \<Rightarrow> CQE io" where
  "cqe_load i = seq (access Load (CqeAt i)) (\<lambda>_ w. Done (cqes (mem w) ! i) w)"

subsection \<open>System calls (internal/sys/syscall.go)\<close>

text \<open>
  Of the shared memory the kernel writes its own side only: the submission tail, the
  index array, the submission entries and the completion head belong to the library.
\<close>

definition kernel_side :: "(shm \<Rightarrow> shm) \<Rightarrow> shm \<Rightarrow> shm" where
  "kernel_side f m =
     (f m)\<lparr>sqTail := sqTail m, sqArray := sqArray m, sqes := sqes m, cqHead := cqHead m\<rparr>"

definition trap :: "syscall \<Rightarrow> kresp io" where
  "trap c w =
     (let k = kernel w (nsys w) c
      in Done k (w\<lparr>mem := kernel_side (kwrites k) (mem w),
                   clock := clock w + int (kelapsed k),
                   nsys := nsys w + 1,
                   log := log w @ [Call c]\<rparr>))"

definition errno_error :: "nat \<Rightarrow> error option" where
  "errno_error e = (if e \<noteq> 0 then Some (Errno e) else None)"

definition Setup :: "u32 \<Rightarrow> Params \<Rightarrow> (int \<times> Params \<times> error option) io" where
  "Setup entries p =
     seq (trap (SysSetup entries p))
       (\<lambda>k. if kerrno k \<noteq> 0 then ret (0, kparams k, Some (Errno (kerrno k)))
             else ret (kval k, kparams k, None))"

definition Enter :: "int \<Rightarrow> u32 \<Rightarrow> u32 \<Rightarrow> u32 \<Rightarrow> (int \<times> error option) io" where
  "Enter f toSubmit minComplete flags =
     seq (trap (SysEnter f toSubmit minComplete flags))
       (\<lambda>k. if kerrno k \<noteq> 0 then ret (0, Some (Errno (kerrno k))) else ret (kval k, None))"

definition EnterExt ::
  "int \<Rightarrow> u32 \<Rightarrow> u32 \<Rightarrow> u32 \<Rightarrow> int \<times> int \<Rightarrow> (int \<times> error option) io" where
  "EnterExt f toSubmit minComplete flags ts =
     seq (trap (SysEnterExt f toSubmit minComplete (flags OR IORING_ENTER_EXT_ARG)
                 (fst ts) (snd ts)))
       (\<lambda>k. if kerrno k \<noteq> 0 then ret (0, Some (Errno (kerrno k))) else ret (kval k, None))"

definition Register :: "int \<Rightarrow> u32 \<Rightarrow> u32 \<Rightarrow> error option io" where
  "Register f opcode nrArgs =
     seq (trap (SysRegister f opcode nrArgs)) (\<lambda>k. ret (errno_error (kerrno k)))"

definition Mmap :: "int \<Rightarrow> u64 \<Rightarrow> int \<Rightarrow> (u64 option \<times> error option) io" where
  "Mmap f offset len =
     seq (trap (SysMmap f offset len))
       (\<lambda>k w. if kerrno k \<noteq> 0 then Done (None, Some (Errno (kerrno k))) w
               else Done (Some offset, None) (w\<lparr>mapped := insert offset (mapped w)\<rparr>))"

text \<open>
  \<open>syscall.Munmap\<close> rejects a slice that is nil or not an active mapping with EINVAL
  and makes no system call. The library ignores what \<open>sys.Munmap\<close> returns.
\<close>

definition Munmap :: "u64 option \<Rightarrow> error option io" where
  "Munmap s w =
     (case s of
        None \<Rightarrow> Done (Some EINVAL) w
      | Some h \<Rightarrow>
          if h \<notin> mapped w then Done (Some EINVAL) w
          else seq (trap (SysMunmap h))
                 (\<lambda>k w. if kerrno k \<noteq> 0 then Done (Some (Errno (kerrno k))) w
                         else Done None (w\<lparr>mapped := mapped w - {h}\<rparr>)) w)"

text \<open>\<open>sys.Munmap(r.sqRing)\<close> and the like, the result dropped.\<close>

definition munmap_field :: "(Ring \<Rightarrow> u64 option) \<Rightarrow> unit io" where
  "munmap_field fld = seq self (\<lambda>r. seq (Munmap (fld r)) (\<lambda>_. ret ()))"

definition syscall_Close :: "int \<Rightarrow> error option io" where
  "syscall_Close f = seq (trap (SysClose f)) (\<lambda>k. ret (errno_error (kerrno k)))"

definition time_Now :: "int io" where
  "time_Now w = Done (clock w) w"

section \<open>Ring setup, teardown and submission (ring.go)\<close>

text \<open>
  \<open>mapRings\<close>. The three mmap calls and the unwinding on failure are as in the source;
  resolving the typed pointers inside the regions is memory layout and is not
  modelled, except that the cached capacities and masks are read from the regions.
  \<open>unsafe.Sizeof(sys.CQE{})\<close> is 16 and \<open>unsafe.Sizeof(sys.SQE{})\<close> is 64.
\<close>

definition mapRings :: "error option io" where
  "mapRings =
     seq self (\<lambda>r0.
     let p = params r0;
         sqRingSize0 = sqo_Array (SQOff p) + SQEntries p * 4;
         cqRingSize = cqo_CQEs (CQOff p) + CQEntries p * 16;
         singleMmap = (Features p AND IORING_FEAT_SINGLE_MMAP \<noteq> 0);
         sqRingSize = (if singleMmap \<and> cqRingSize > sqRingSize0 then cqRingSize
                       else sqRingSize0);
         sqeSize = SQEntries p * 64
     in
     seq (Mmap (fd r0) IORING_OFF_SQ_RING (uint sqRingSize)) (\<lambda>(data, err).
     seq (update_ring (\<lambda>r. r\<lparr>sqRing := data\<rparr>)) (\<lambda>_.
     if err \<noteq> None then ret err else
     seq (if singleMmap
          then seq (update_ring (\<lambda>r. r\<lparr>cqRing := sqRing r\<rparr>)) (\<lambda>_. ret None)
          else
            seq (Mmap (fd r0) IORING_OFF_CQ_RING (uint cqRingSize)) (\<lambda>(data, err).
            seq (update_ring (\<lambda>r. r\<lparr>cqRing := data\<rparr>)) (\<lambda>_.
            if err \<noteq> None then seq (munmap_field sqRing) (\<lambda>_. ret err)
            else ret None))) (\<lambda>err.
     if err \<noteq> None then ret err else
     seq (Mmap (fd r0) IORING_OFF_SQES (uint sqeSize)) (\<lambda>(data, err).
     seq (update_ring (\<lambda>r. r\<lparr>sqesMmap := data\<rparr>)) (\<lambda>_.
     if err \<noteq> None then
       seq (if \<not> singleMmap then munmap_field cqRing else ret ()) (\<lambda>_.
       seq (munmap_field sqRing) (\<lambda>_. ret err))
     else
     seq (access Load (Cell SqRingEntries)) (\<lambda>_.
     seq (access Load (Cell SqRingMask)) (\<lambda>_.
     seq (access Load (Cell CqRingEntries)) (\<lambda>_.
     seq (access Load (Cell CqRingMask)) (\<lambda>_ w.
       Done None (w\<lparr>ring := (ring w)\<lparr>sqEntries := sqRingEntries (mem w),
                                        sqMask := sqRingMask (mem w),
                                        cqEntries := cqRingEntries (mem w),
                                        cqMask := cqRingMask (mem w)\<rparr>\<rparr>)))))))))))"

text \<open>
  \<open>&Ring{fd: fd, params: params, features: params.Features}\<close>. The ring \<open>New\<close>
  creates is the ring of the world; \<open>New\<close> returns its error only.
\<close>

definition Ring_init :: "int \<Rightarrow> Params \<Rightarrow> Ring" where
  "Ring_init f p = \<lparr>fd = f, params = p, features = Features p, sqRing = None,
     sqEntries = 0, sqMask = 0, sqesMmap = None, cqRing = None, cqEntries = 0,
     cqMask = 0, sqPending = 0, closed = False\<rparr>"

definition New :: "u32 \<Rightarrow> Option list \<Rightarrow> error option io" where
  "New entries opts =
     (if entries = 0 then ret (Some EINVAL)
      else
        let params0 = apply_opts opts Params_zero in
        seq (Setup entries params0) (\<lambda>(f, p, err).
        if err \<noteq> None then ret err else
        seq (update_ring (\<lambda>_. Ring_init f p)) (\<lambda>_.
        seq mapRings (\<lambda>err.
        if err \<noteq> None then seq (syscall_Close f) (\<lambda>_. ret err)
        else ret None))))"

definition Close :: "error option io" where
  "Close =
     seq self (\<lambda>r0.
     seq (update_ring (\<lambda>r. r\<lparr>closed := True\<rparr>)) (\<lambda>_.
     if closed r0 then ret None else
     seq (if Features (params r0) AND IORING_FEAT_SINGLE_MMAP = 0 \<and> cqRing r0 \<noteq> None
          then munmap_field cqRing else ret ()) (\<lambda>_.
     seq (if sqRing r0 \<noteq> None then munmap_field sqRing else ret ()) (\<lambda>_.
     seq (if sqesMmap r0 \<noteq> None then munmap_field sqesMmap else ret ()) (\<lambda>_.
     syscall_Close (fd r0))))))"

definition SQReady :: "u32 io" where
  "SQReady = seq self (\<lambda>r. ret (sqPending r))"

definition SQSpace :: "u32 io" where
  "SQSpace =
     seq (atomic_LoadUint32 SqHead) (\<lambda>head.
     seq (atomic_LoadUint32 SqTail) (\<lambda>tail.
     seq self (\<lambda>r. ret (sqEntries r - (tail - head)))))"

definition CQReady :: "u32 io" where
  "CQReady =
     seq (atomic_LoadUint32 CqHead) (\<lambda>head.
     seq (atomic_LoadUint32 CqTail) (\<lambda>tail. ret (tail - head)))"

definition HasFeature :: "u32 \<Rightarrow> bool io" where
  "HasFeature feat = seq self (\<lambda>r. ret (features r AND feat \<noteq> 0))"

definition needsWakeup :: "bool io" where
  "needsWakeup =
     seq self (\<lambda>r.
     if Flags (params r) AND IORING_SETUP_SQPOLL = 0 then ret False
     else seq (atomic_LoadUint32 SqFlags) (\<lambda>f. ret (f AND IORING_SQ_NEED_WAKEUP \<noteq> 0)))"

definition Submit :: "(int \<times> error option) io" where
  "Submit =
     seq self (\<lambda>r.
     if closed r then ret (0, Some ErrRingClosed) else
     let submitted = sqPending r in
     if submitted = 0 then ret (0, None) else
     seq (atomic_LoadUint32 SqTail) (\<lambda>tail.
     seq (atomic_StoreUint32 SqTail (tail + submitted)) (\<lambda>_.
     seq (update_ring (\<lambda>r. r\<lparr>sqPending := 0\<rparr>)) (\<lambda>_.
     seq needsWakeup (\<lambda>wake.
     let flags = (if wake then 0 OR IORING_ENTER_SQ_WAKEUP else 0) in
     if Flags (params r) AND IORING_SETUP_SQPOLL \<noteq> 0 \<and> flags = 0
     then ret (uint submitted, None)
     else
       seq (Enter (fd r) submitted 0 flags) (\<lambda>(n, err).
       if err \<noteq> None then ret (0, err) else ret (n, None)))))))"

definition SubmitAndWait :: "u32 \<Rightarrow> (int \<times> error option) io" where
  "SubmitAndWait n =
     seq self (\<lambda>r.
     if closed r then ret (0, Some ErrRingClosed) else
     let submitted = sqPending r in
     seq (if submitted > 0 then
            seq (atomic_LoadUint32 SqTail) (\<lambda>tail.
            seq (atomic_StoreUint32 SqTail (tail + submitted)) (\<lambda>_.
            update_ring (\<lambda>r. r\<lparr>sqPending := 0\<rparr>)))
          else ret ()) (\<lambda>_.
     seq needsWakeup (\<lambda>wake.
     let flags = (if wake then IORING_ENTER_GETEVENTS OR IORING_ENTER_SQ_WAKEUP
                  else IORING_ENTER_GETEVENTS) in
     seq (Enter (fd r) submitted n flags) (\<lambda>(result, err).
     if err \<noteq> None then ret (0, err) else ret (result, None)))))"

subsection \<open>Registration\<close>

text \<open>
  A Go slice as the address of its first element and its elements; \<open>len\<close> is the
  number of elements. \<open>syscall.Iovec\<close> has a base address and a length.
\<close>

record 'a slice =
  sl_ptr :: u64
  sl_elems :: "'a list"

definition len :: "'a slice \<Rightarrow> nat" where
  "len s = length (sl_elems s)"

record Iovec =
  iov_Base :: u64
  iov_Len :: u64

definition sys_RegisterBuffers :: "int \<Rightarrow> Iovec list \<Rightarrow> error option io" where
  "sys_RegisterBuffers f iovecs =
     (if length iovecs = 0 then ret (Some EINVAL)
      else Register f IORING_REGISTER_BUFFERS (of_nat (length iovecs)))"

definition sys_RegisterFiles :: "int \<Rightarrow> i32 list \<Rightarrow> error option io" where
  "sys_RegisterFiles f fds =
     (if length fds = 0 then ret (Some EINVAL)
      else Register f IORING_REGISTER_FILES (of_nat (length fds)))"

definition RegisterEventfd :: "int \<Rightarrow> error option io" where
  "RegisterEventfd eventfd = seq self (\<lambda>r. Register (fd r) IORING_REGISTER_EVENTFD 1)"

definition UnregisterEventfd :: "error option io" where
  "UnregisterEventfd = seq self (\<lambda>r. Register (fd r) IORING_UNREGISTER_EVENTFD 0)"

definition RegisterBuffers :: "u8 slice list \<Rightarrow> error option io" where
  "RegisterBuffers bufs =
     (if length bufs = 0 then ret (Some EINVAL)
      else
        let iovecs = map (\<lambda>buf. if len buf > 0
                                 then \<lparr>iov_Base = sl_ptr buf, iov_Len = of_nat (len buf)\<rparr>
                                 else \<lparr>iov_Base = 0, iov_Len = 0\<rparr>) bufs
        in seq self (\<lambda>r. sys_RegisterBuffers (fd r) iovecs))"

definition UnregisterBuffers :: "error option io" where
  "UnregisterBuffers = seq self (\<lambda>r. Register (fd r) IORING_UNREGISTER_BUFFERS 0)"

definition RegisterFiles :: "int list \<Rightarrow> error option io" where
  "RegisterFiles fds =
     (if length fds = 0 then ret (Some EINVAL)
      else
        let fds32 = map (\<lambda>f. (word_of_int f :: i32)) fds
        in seq self (\<lambda>r. sys_RegisterFiles (fd r) fds32))"

definition UnregisterFiles :: "error option io" where
  "UnregisterFiles = seq self (\<lambda>r. Register (fd r) IORING_UNREGISTER_FILES 0)"

text \<open>\<open>Probe\<close> (the probe table the kernel fills in is not modelled).\<close>

definition Probe :: "error option io" where
  "Probe = seq self (\<lambda>r. Register (fd r) IORING_REGISTER_PROBE IORING_OP_LAST)"

section \<open>Reserving and filling submission entries\<close>

text \<open>
  \<open>getSQE\<close> returns the pointer \<open>&r.sqes[idx]\<close> as the index, or \<open>None\<close> for nil.
\<close>

definition getSQE :: "nat option io" where
  "getSQE =
     seq (atomic_LoadUint32 SqHead) (\<lambda>head.
     seq (atomic_LoadUint32 SqTail) (\<lambda>t.
     seq self (\<lambda>r.
     let tail = t + sqPending r in
     if tail - head \<ge> sqEntries r then ret None else
     let idx = tail AND sqMask r in
     seq (sqe_ptr idx) (\<lambda>sqe.
     seq (sqe_assign sqe Reset) (\<lambda>_.
     seq (sqArray_store idx idx) (\<lambda>_.
     seq (update_ring (\<lambda>r. r\<lparr>sqPending := sqPending r + 1\<rparr>)) (\<lambda>_.
     ret (Some sqe))))))))"

definition GetSQE :: "nat option io" where
  "GetSQE = getSQE"

text \<open>
  Every builder has the same frame: reserve an entry, return \<open>ErrSQFull\<close> when there is
  none, otherwise assign fields of the entry through the pointer and return nil. \<open>prep\<close> is that frame; its argument is the sequence of field assignments.
\<close>

definition prep :: "(SQE \<Rightarrow> SQE) \<Rightarrow> error option io" where
  "prep fill =
     seq getSQE (\<lambda>sqe.
     case sqe of
       None \<Rightarrow> ret (Some ErrSQFull)
     | Some i \<Rightarrow> seq (sqe_assign i fill) (\<lambda>_. ret None))"

definition PrepNop :: "u64 \<Rightarrow> error option io" where
  "PrepNop userData = prep (\<lambda>sqe. sqe\<lparr>Opcode := IORING_OP_NOP, UserData := userData\<rparr>)"

definition PrepRead :: "int \<Rightarrow> u8 slice \<Rightarrow> u64 \<Rightarrow> u64 \<Rightarrow> error option io" where
  "PrepRead f buf offset userData =
     (if len buf = 0 then ret None
      else prep (\<lambda>sqe. sqe\<lparr>Opcode := IORING_OP_READ, Fd := word_of_int f,
             Addr := sl_ptr buf, Len := of_nat (len buf), Off := offset,
             UserData := userData\<rparr>))"

definition PrepWrite :: "int \<Rightarrow> u8 slice \<Rightarrow> u64 \<Rightarrow> u64 \<Rightarrow> error option io" where
  "PrepWrite f buf offset userData =
     (if len buf = 0 then ret None
      else prep (\<lambda>sqe. sqe\<lparr>Opcode := IORING_OP_WRITE, Fd := word_of_int f,
             Addr := sl_ptr buf, Len := of_nat (len buf), Off := offset,
             UserData := userData\<rparr>))"

definition PrepReadFixed ::
  "int \<Rightarrow> u8 slice \<Rightarrow> u64 \<Rightarrow> u16 \<Rightarrow> u64 \<Rightarrow> error option io" where
  "PrepReadFixed f buf offset bufIndex userData =
     (if len buf = 0 then ret None
      else prep (\<lambda>sqe. sqe\<lparr>Opcode := IORING_OP_READ_FIXED, Fd := word_of_int f,
             Addr := sl_ptr buf, Len := of_nat (len buf), Off := offset,
             BufIndex := bufIndex, UserData := userData\<rparr>))"

definition PrepWriteFixed ::
  "int \<Rightarrow> u8 slice \<Rightarrow> u64 \<Rightarrow> u16 \<Rightarrow> u64 \<Rightarrow> error option io" where
  "PrepWriteFixed f buf offset bufIndex userData =
     (if len buf = 0 then ret None
      else prep (\<lambda>sqe. sqe\<lparr>Opcode := IORING_OP_WRITE_FIXED, Fd := word_of_int f,
             Addr := sl_ptr buf, Len := of_nat (len buf), Off := offset,
             BufIndex := bufIndex, UserData := userData\<rparr>))"

definition PrepReadv :: "int \<Rightarrow> Iovec slice \<Rightarrow> u64 \<Rightarrow> u64 \<Rightarrow> error option io" where
  "PrepReadv f iovecs offset userData =
     (if len iovecs = 0 then ret None
      else prep (\<lambda>sqe. sqe\<lparr>Opcode := IORING_OP_READV, Fd := word_of_int f,
             Addr := sl_ptr iovecs, Len := of_nat (len iovecs), Off := offset,
             UserData := userData\<rparr>))"

definition PrepWritev :: "int \<Rightarrow> Iovec slice \<Rightarrow> u64 \<Rightarrow> u64 \<Rightarrow> error option io" where
  "PrepWritev f iovecs offset userData =
     (if len iovecs = 0 then ret None
      else prep (\<lambda>sqe. sqe\<lparr>Opcode := IORING_OP_WRITEV, Fd := word_of_int f,
             Addr := sl_ptr iovecs, Len := of_nat (len iovecs), Off := offset,
             UserData := userData\<rparr>))"

definition PrepSend :: "int \<Rightarrow> u8 slice \<Rightarrow> int \<Rightarrow> u64 \<Rightarrow> error option io" where
  "PrepSend f buf flags userData =
     (if len buf = 0 then ret None
      else prep (\<lambda>sqe. sqe\<lparr>Opcode := IORING_OP_SEND, Fd := word_of_int f,
             Addr := sl_ptr buf, Len := of_nat (len buf), OpFlags := word_of_int flags,
             UserData := userData\<rparr>))"

definition PrepRecv :: "int \<Rightarrow> u8 slice \<Rightarrow> int \<Rightarrow> u64 \<Rightarrow> error option io" where
  "PrepRecv f buf flags userData =
     (if len buf = 0 then ret None
      else prep (\<lambda>sqe. sqe\<lparr>Opcode := IORING_OP_RECV, Fd := word_of_int f,
             Addr := sl_ptr buf, Len := of_nat (len buf), OpFlags := word_of_int flags,
             UserData := userData\<rparr>))"

definition PrepFsync :: "int \<Rightarrow> u32 \<Rightarrow> u64 \<Rightarrow> error option io" where
  "PrepFsync f flags userData =
     prep (\<lambda>sqe. sqe\<lparr>Opcode := IORING_OP_FSYNC, Fd := word_of_int f, OpFlags := flags,
       UserData := userData\<rparr>)"

definition PrepTimeout :: "u64 \<Rightarrow> u64 \<Rightarrow> u32 \<Rightarrow> u64 \<Rightarrow> error option io" where
  "PrepTimeout ts count flags userData =
     prep (\<lambda>sqe. sqe\<lparr>Opcode := IORING_OP_TIMEOUT, Fd := - 1, Addr := ts, Len := 1,
       Off := count, OpFlags := flags, UserData := userData\<rparr>)"

definition PrepTimeoutRemove :: "u64 \<Rightarrow> u64 \<Rightarrow> error option io" where
  "PrepTimeoutRemove targetUserData userData =
     prep (\<lambda>sqe. sqe\<lparr>Opcode := IORING_OP_TIMEOUT_REMOVE, Fd := - 1,
       Addr := targetUserData, UserData := userData\<rparr>)"

definition PrepLinkTimeout :: "u64 \<Rightarrow> u32 \<Rightarrow> u64 \<Rightarrow> error option io" where
  "PrepLinkTimeout ts flags userData =
     prep (\<lambda>sqe. sqe\<lparr>Opcode := IORING_OP_LINK_TIMEOUT, Fd := - 1, Addr := ts, Len := 1,
       OpFlags := flags, UserData := userData\<rparr>)"

definition PrepCancel :: "u64 \<Rightarrow> u32 \<Rightarrow> u64 \<Rightarrow> error option io" where
  "PrepCancel targetUserData flags userData =
     prep (\<lambda>sqe. sqe\<lparr>Opcode := IORING_OP_ASYNC_CANCEL, Fd := - 1,
       Addr := targetUserData, OpFlags := flags, UserData := userData\<rparr>)"

definition PrepAccept :: "int \<Rightarrow> u64 \<Rightarrow> u64 \<Rightarrow> u32 \<Rightarrow> u64 \<Rightarrow> error option io" where
  "PrepAccept f addr addrLen flags userData =
     prep (\<lambda>sqe. sqe\<lparr>Opcode := IORING_OP_ACCEPT, Fd := word_of_int f, Addr := addr,
       Off := addrLen, OpFlags := flags, UserData := userData\<rparr>)"

definition PrepAcceptMultishot ::
  "int \<Rightarrow> u64 \<Rightarrow> u64 \<Rightarrow> u32 \<Rightarrow> u64 \<Rightarrow> error option io" where
  "PrepAcceptMultishot f addr addrLen flags userData =
     prep (\<lambda>sqe. sqe\<lparr>Opcode := IORING_OP_ACCEPT, Fd := word_of_int f, Addr := addr,
       Off := addrLen, OpFlags := flags, Ioprio := ucast IORING_ACCEPT_MULTISHOT,
       UserData := userData\<rparr>)"

definition PrepConnect :: "int \<Rightarrow> u64 \<Rightarrow> u32 \<Rightarrow> u64 \<Rightarrow> error option io" where
  "PrepConnect f addr addrLen userData =
     prep (\<lambda>sqe. sqe\<lparr>Opcode := IORING_OP_CONNECT, Fd := word_of_int f, Addr := addr,
       Off := ucast addrLen, UserData := userData\<rparr>)"

definition PrepRecvMultishot :: "int \<Rightarrow> u16 \<Rightarrow> int \<Rightarrow> u64 \<Rightarrow> error option io" where
  "PrepRecvMultishot f bufGroup flags userData =
     prep (\<lambda>sqe. (SetBufGroup bufGroup
                    (sqe\<lparr>Opcode := IORING_OP_RECV, Fd := word_of_int f,
                       Flags_sqe := IOSQE_BUFFER_SELECT, Ioprio := IORING_RECV_MULTISHOT\<rparr>))
                  \<lparr>OpFlags := word_of_int flags, UserData := userData\<rparr>)"

definition PrepClose :: "int \<Rightarrow> u64 \<Rightarrow> error option io" where
  "PrepClose f userData =
     prep (\<lambda>sqe. sqe\<lparr>Opcode := IORING_OP_CLOSE, Fd := word_of_int f,
       UserData := userData\<rparr>)"

definition PrepShutdown :: "int \<Rightarrow> int \<Rightarrow> u64 \<Rightarrow> error option io" where
  "PrepShutdown f how userData =
     prep (\<lambda>sqe. sqe\<lparr>Opcode := IORING_OP_SHUTDOWN, Fd := word_of_int f,
       Len := word_of_int how, UserData := userData\<rparr>)"

definition PrepSendmsg :: "int \<Rightarrow> u64 \<Rightarrow> int \<Rightarrow> u64 \<Rightarrow> error option io" where
  "PrepSendmsg f msg flags userData =
     prep (\<lambda>sqe. sqe\<lparr>Opcode := IORING_OP_SENDMSG, Fd := word_of_int f, Addr := msg,
       Len := 1, OpFlags := word_of_int flags, UserData := userData\<rparr>)"

definition PrepRecvmsg :: "int \<Rightarrow> u64 \<Rightarrow> int \<Rightarrow> u64 \<Rightarrow> error option io" where
  "PrepRecvmsg f msg flags userData =
     prep (\<lambda>sqe. sqe\<lparr>Opcode := IORING_OP_RECVMSG, Fd := word_of_int f, Addr := msg,
       Len := 1, OpFlags := word_of_int flags, UserData := userData\<rparr>)"

definition PrepSocket :: "int \<Rightarrow> int \<Rightarrow> int \<Rightarrow> u64 \<Rightarrow> error option io" where
  "PrepSocket domain typ protocol userData =
     prep (\<lambda>sqe. sqe\<lparr>Opcode := IORING_OP_SOCKET, Fd := word_of_int domain,
       Off := word_of_int typ, Len := word_of_int protocol, UserData := userData\<rparr>)"

definition PrepPollAdd :: "int \<Rightarrow> u32 \<Rightarrow> u64 \<Rightarrow> error option io" where
  "PrepPollAdd f pollMask userData =
     prep (\<lambda>sqe. sqe\<lparr>Opcode := IORING_OP_POLL_ADD, Fd := word_of_int f,
       OpFlags := pollMask, UserData := userData\<rparr>)"

definition PrepPollAddMultishot :: "int \<Rightarrow> u32 \<Rightarrow> u64 \<Rightarrow> error option io" where
  "PrepPollAddMultishot f pollMask userData =
     prep (\<lambda>sqe. sqe\<lparr>Opcode := IORING_OP_POLL_ADD, Fd := word_of_int f,
       OpFlags := pollMask, Len := IORING_POLL_ADD_MULTI, UserData := userData\<rparr>)"

definition PrepPollRemove :: "u64 \<Rightarrow> u64 \<Rightarrow> error option io" where
  "PrepPollRemove targetUserData userData =
     prep (\<lambda>sqe. sqe\<lparr>Opcode := IORING_OP_POLL_REMOVE, Fd := - 1,
       Addr := targetUserData, UserData := userData\<rparr>)"

definition PrepOpenat :: "int \<Rightarrow> u64 \<Rightarrow> int \<Rightarrow> u32 \<Rightarrow> u64 \<Rightarrow> error option io" where
  "PrepOpenat dirfd path flags mode userData =
     prep (\<lambda>sqe. sqe\<lparr>Opcode := IORING_OP_OPENAT, Fd := word_of_int dirfd, Addr := path,
       Len := mode, OpFlags := word_of_int flags, UserData := userData\<rparr>)"

definition PrepStatx ::
  "int \<Rightarrow> u64 \<Rightarrow> int \<Rightarrow> int \<Rightarrow> u64 \<Rightarrow> u64 \<Rightarrow> error option io" where
  "PrepStatx dirfd path flags mask0 statxbuf userData =
     prep (\<lambda>sqe. sqe\<lparr>Opcode := IORING_OP_STATX, Fd := word_of_int dirfd, Addr := path,
       Len := word_of_int mask0, OpFlags := word_of_int flags, Off := statxbuf,
       UserData := userData\<rparr>)"

definition PrepSplice ::
  "int \<Rightarrow> u64 \<Rightarrow> int \<Rightarrow> u64 \<Rightarrow> u32 \<Rightarrow> u32 \<Rightarrow> u64 \<Rightarrow> error option io" where
  "PrepSplice fdIn offIn fdOut offOut nbytes flags userData =
     prep (\<lambda>sqe. (SetSpliceOffIn offIn
                    (sqe\<lparr>Opcode := IORING_OP_SPLICE, Fd := word_of_int fdOut,
                       SpliceFdIn := word_of_int fdIn, Len := nbytes, Off := offOut\<rparr>))
                  \<lparr>OpFlags := flags, UserData := userData\<rparr>)"

definition SetSQEFlags :: "u8 \<Rightarrow> unit io" where
  "SetSQEFlags flags =
     seq self (\<lambda>r.
     if sqPending r > 0 then
       seq (atomic_LoadUint32 SqTail) (\<lambda>t.
       let tail = t + sqPending r - 1;
           idx = tail AND sqMask r
       in
       seq (sqe_ptr idx) (\<lambda>i.
       seq (sqe_load i) (\<lambda>s.
       sqe_store i (s\<lparr>Flags_sqe := Flags_sqe s OR flags\<rparr>))))
     else ret ())"

definition SetSQELink :: "unit io" where
  "SetSQELink = SetSQEFlags IOSQE_IO_LINK"

definition SetSQEAsync :: "unit io" where
  "SetSQEAsync = SetSQEFlags IOSQE_ASYNC"

section \<open>Completions (cqe.go)\<close>

definition PeekCQE :: "(u64 \<times> i32 \<times> u32 \<times> bool) io" where
  "PeekCQE =
     seq (atomic_LoadUint32 CqHead) (\<lambda>head.
     seq (atomic_LoadUint32 CqTail) (\<lambda>tail.
     if head = tail then ret (0, 0, 0, False) else
     seq self (\<lambda>r.
     let idx = head AND cqMask r in
     seq (cqe_ptr idx) (\<lambda>i.
     seq (cqe_load i) (\<lambda>cqe.
     ret (UserData_cqe cqe, Res cqe, Flags_cqe cqe, True))))))"

definition SeenCQE :: "unit io" where
  "SeenCQE =
     seq (atomic_LoadUint32 CqHead) (\<lambda>head. atomic_StoreUint32 CqHead (head + 1))"

definition SeenCQEs :: "u32 \<Rightarrow> unit io" where
  "SeenCQEs n =
     seq (atomic_LoadUint32 CqHead) (\<lambda>head. atomic_StoreUint32 CqHead (head + n))"

definition DrainCQEs :: "int io" where
  "DrainCQEs =
     seq (atomic_LoadUint32 CqHead) (\<lambda>head.
     seq (atomic_LoadUint32 CqTail) (\<lambda>tail.
     let count = uint (tail - head) in
     seq (if count > 0 then atomic_StoreUint32 CqHead tail else ret ()) (\<lambda>_.
     ret count)))"

definition CQOverflow :: "u32 io" where
  "CQOverflow = atomic_LoadUint32 CqOverflow"

text \<open>
  \<open>ResultError\<close>: \<open>-res\<close> is computed in 32 bits and widened with its sign to the
  error number.
\<close>

definition ResultError :: "i32 \<Rightarrow> error option" where
  "ResultError res =
     (if 0 \<le> sint res then None else Some (Errno (unat (scast (- res) :: u64))))"

definition WaitCQE :: "(u64 \<times> i32 \<times> u32 \<times> error option) io" where
  "WaitCQE =
     seq self (\<lambda>r.
     if closed r then ret (0, 0, 0, Some ErrRingClosed) else
     seq PeekCQE (\<lambda>(userData, res, flags, ok).
     if ok then ret (userData, res, flags, None) else
     seq (SubmitAndWait 1) (\<lambda>(_, err).
     if err \<noteq> None then ret (0, 0, 0, err) else
     seq PeekCQE (\<lambda>(userData, res, flags, ok).
     if ok then ret (userData, res, flags, None) else
     ret (0, 0, 0, Some EAGAIN)))))"

text \<open>
  Durations are nanoseconds (\<open>time.Duration\<close>); \<open>/\<close> and \<open>%\<close> truncate towards zero.
  The clock of the world is what \<open>time.Now\<close> reads; it advances while a system call
  is in the kernel.
\<close>

definition Millisecond :: int where "Millisecond = 1000000"
definition Second :: int where "Second = 1000000000"

definition go_quot :: "int \<Rightarrow> int \<Rightarrow> int" where
  "go_quot a b = sgn a * sgn b * (\<bar>a\<bar> div \<bar>b\<bar>)"

definition go_rem :: "int \<Rightarrow> int \<Rightarrow> int" where
  "go_rem a b = a - b * go_quot a b"

text \<open>
  \<open>waitCQETimeoutPoll\<close>: the \<open>for\<close> loop, one iteration per unit of fuel, after
  \<open>deadline := time.Now().Add(timeout)\<close>.
\<close>

primrec waitCQETimeoutPoll_loop ::
  "nat \<Rightarrow> int \<Rightarrow> (u64 \<times> i32 \<times> u32 \<times> error option) io" where
  "waitCQETimeoutPoll_loop 0 deadline = abort_with OutOfFuel"
| "waitCQETimeoutPoll_loop (Suc n) deadline =
     seq PeekCQE (\<lambda>(userData, res, flags, ok).
     if ok then ret (userData, res, flags, None) else
     seq time_Now (\<lambda>now.
     let remaining = deadline - now in
     if remaining \<le> 0 then ret (0, 0, 0, Some ETIME) else
     let sleepTime = (if remaining > 10 * Millisecond then 10 * Millisecond else remaining) in
     seq (SubmitAndWait 1) (\<lambda>(_, err).
     if err = None then waitCQETimeoutPoll_loop n deadline
     else if err = Some EINTR then waitCQETimeoutPoll_loop n deadline
     else ret (0, 0, 0, err))))"

definition waitCQETimeoutPoll ::
  "nat \<Rightarrow> int \<Rightarrow> (u64 \<times> i32 \<times> u32 \<times> error option) io" where
  "waitCQETimeoutPoll fuel timeout =
     seq time_Now (\<lambda>now. waitCQETimeoutPoll_loop fuel (now + timeout))"

definition WaitCQETimeout ::
  "nat \<Rightarrow> int \<Rightarrow> (u64 \<times> i32 \<times> u32 \<times> error option) io" where
  "WaitCQETimeout fuel timeout =
     seq self (\<lambda>r.
     if closed r then ret (0, 0, 0, Some ErrRingClosed) else
     seq PeekCQE (\<lambda>(userData, res, flags, ok).
     if ok then ret (userData, res, flags, None) else
     seq (HasFeature IORING_FEAT_EXT_ARG) (\<lambda>has.
     if \<not> has then waitCQETimeoutPoll fuel timeout else
     let ts = (go_quot timeout Second, go_rem timeout Second);
         submitted = sqPending r
     in
     seq (if submitted > 0 then
            seq (atomic_LoadUint32 SqTail) (\<lambda>tail.
            seq (atomic_StoreUint32 SqTail (tail + submitted)) (\<lambda>_.
            update_ring (\<lambda>r. r\<lparr>sqPending := 0\<rparr>)))
          else ret ()) (\<lambda>_.
     seq (EnterExt (fd r) submitted 1 IORING_ENTER_GETEVENTS ts) (\<lambda>(_, err).
     if err \<noteq> None then ret (0, 0, 0, err) else
     seq PeekCQE (\<lambda>(userData, res, flags, ok).
     if ok then ret (userData, res, flags, None) else
     ret (0, 0, 0, Some ETIME)))))))"

text \<open>
  \<open>WaitCQEContext\<close>. The context is the set of clock values at which its \<open>Done\<close>
  channel is closed; its error is \<open>CtxErr\<close>.
\<close>

primrec WaitCQEContext_loop ::
  "nat \<Rightarrow> (int \<Rightarrow> bool) \<Rightarrow> (u64 \<times> i32 \<times> u32 \<times> error option) io" where
  "WaitCQEContext_loop 0 ctx = abort_with OutOfFuel"
| "WaitCQEContext_loop (Suc n) ctx =
     seq time_Now (\<lambda>now.
     if ctx now then ret (0, 0, 0, Some CtxErr) else
     seq (WaitCQETimeout (Suc n) (100 * Millisecond)) (\<lambda>(userData, res, flags, err).
     if err = Some ETIME then WaitCQEContext_loop n ctx
     else ret (userData, res, flags, err)))"

definition WaitCQEContext ::
  "nat \<Rightarrow> (int \<Rightarrow> bool) \<Rightarrow> (u64 \<times> i32 \<times> u32 \<times> error option) io" where
  "WaitCQEContext fuel ctx =
     seq self (\<lambda>r.
     if closed r then ret (0, 0, 0, Some ErrRingClosed) else
     seq PeekCQE (\<lambda>(userData, res, flags, ok).
     if ok then ret (userData, res, flags, None) else
     WaitCQEContext_loop fuel ctx))"

text \<open>
  \<open>ForEachCQE\<close>: the loop runs while \<open>head != tail\<close>; each round moves \<open>head\<close> one
  step towards \<open>tail\<close>.
\<close>

function ForEachCQE_loop ::
  "(u64 \<Rightarrow> i32 \<Rightarrow> u32 \<Rightarrow> bool) \<Rightarrow> u32 \<Rightarrow> u32 \<Rightarrow> int \<Rightarrow> (u32 \<times> int) io" where
  "ForEachCQE_loop fn head tail count w =
     (if head \<noteq> tail then
        (case seq (cqe_ptr (head AND cqMask (ring w))) cqe_load w of
           Abort x w' \<Rightarrow> Abort x w'
         | Done cqe w' \<Rightarrow>
             if \<not> fn (UserData_cqe cqe) (Res cqe) (Flags_cqe cqe) then Done (head, count) w'
             else ForEachCQE_loop fn (head + 1) tail (count + 1) w')
      else Done (head, count) w)"
  by pat_completeness auto
termination
proof (relation "measure (\<lambda>(fn, head, tail, count, w). unat (tail - head))")
  show "wf (measure (\<lambda>(fn, head, tail, count, w). unat (tail - head)))"
    by simp
next
  fix fn :: "u64 \<Rightarrow> i32 \<Rightarrow> u32 \<Rightarrow> bool" and head tail :: u32 and count :: int
    and w w' :: world and x2 :: CQE and x1 :: world
  assume "head \<noteq> tail"
  then have "tail - head \<noteq> 0"
    by simp
  then have less: "unat (tail - head - 1) < unat (tail - head)"
    by (simp add: unat_minus_one unat_gt_0 word_neq_0_conv)
  have "tail - (head + 1) = tail - head - 1"
    by simp
  with less have "unat (tail - (head + 1)) < unat (tail - head)"
    by (simp only:)
  then show "((fn, head + 1, tail, count + 1, x1), (fn, head, tail, count, w))
      \<in> measure (\<lambda>(fn, head, tail, count, w). unat (tail - head))"
    by simp
qed

definition ForEachCQE :: "(u64 \<Rightarrow> i32 \<Rightarrow> u32 \<Rightarrow> bool) \<Rightarrow> int io" where
  "ForEachCQE fn =
     seq (atomic_LoadUint32 CqHead) (\<lambda>head0.
     seq (atomic_LoadUint32 CqTail) (\<lambda>tail.
     seq (ForEachCQE_loop fn head0 tail 0) (\<lambda>(head, count).
     seq (if count > 0 then atomic_StoreUint32 CqHead head else ret ()) (\<lambda>_.
     ret count))))"

section \<open>Sequences of reservations\<close>

text \<open>
  A reservation is a call of \<open>GetSQE\<close> or of one of the builders, with its arguments.
  It returns a pointer (\<open>GetSQE\<close>) or an error (the builders).
\<close>

datatype reservation =
    R_GetSQE
  | R_PrepNop u64
  | R_PrepRead int "u8 slice" u64 u64
  | R_PrepWrite int "u8 slice" u64 u64
  | R_PrepReadFixed int "u8 slice" u64 u16 u64
  | R_PrepWriteFixed int "u8 slice" u64 u16 u64
  | R_PrepReadv int "Iovec slice" u64 u64
  | R_PrepWritev int "Iovec slice" u64 u64
  | R_PrepFsync int u32 u64
  | R_PrepTimeout u64 u64 u32 u64
  | R_PrepTimeoutRemove u64 u64
  | R_PrepLinkTimeout u64 u32 u64
  | R_PrepCancel u64 u32 u64
  | R_PrepAccept int u64 u64 u32 u64
  | R_PrepAcceptMultishot int u64 u64 u32 u64
  | R_PrepConnect int u64 u32 u64
  | R_PrepSend int "u8 slice" int u64
  | R_PrepRecv int "u8 slice" int u64
  | R_PrepRecvMultishot int u16 int u64
  | R_PrepClose int u64
  | R_PrepShutdown int int u64
  | R_PrepSendmsg int u64 int u64
  | R_PrepRecvmsg int u64 int u64
  | R_PrepSocket int int int u64
  | R_PrepPollAdd int u32 u64
  | R_PrepPollAddMultishot int u32 u64
  | R_PrepPollRemove u64 u64
  | R_PrepOpenat int u64 int u32 u64
  | R_PrepStatx int u64 int int u64 u64
  | R_PrepSplice int u64 int u64 u32 u32 u64

datatype returned = Pointer "nat option" | Error "error option"

definition as_error :: "error option io \<Rightarrow> returned io" where
  "as_error m = seq m (\<lambda>e. ret (Error e))"

fun reserve :: "reservation \<Rightarrow> returned io" where
  "reserve R_GetSQE = seq GetSQE (\<lambda>p. ret (Pointer p))"
| "reserve (R_PrepNop u) = as_error (PrepNop u)"
| "reserve (R_PrepRead f b off u) = as_error (PrepRead f b off u)"
| "reserve (R_PrepWrite f b off u) = as_error (PrepWrite f b off u)"
| "reserve (R_PrepReadFixed f b off i u) = as_error (PrepReadFixed f b off i u)"
| "reserve (R_PrepWriteFixed f b off i u) = as_error (PrepWriteFixed f b off i u)"
| "reserve (R_PrepReadv f v off u) = as_error (PrepReadv f v off u)"
| "reserve (R_PrepWritev f v off u) = as_error (PrepWritev f v off u)"
| "reserve (R_PrepFsync f fl u) = as_error (PrepFsync f fl u)"
| "reserve (R_PrepTimeout ts c fl u) = as_error (PrepTimeout ts c fl u)"
| "reserve (R_PrepTimeoutRemove t u) = as_error (PrepTimeoutRemove t u)"
| "reserve (R_PrepLinkTimeout ts fl u) = as_error (PrepLinkTimeout ts fl u)"
| "reserve (R_PrepCancel t fl u) = as_error (PrepCancel t fl u)"
| "reserve (R_PrepAccept f a l fl u) = as_error (PrepAccept f a l fl u)"
| "reserve (R_PrepAcceptMultishot f a l fl u) = as_error (PrepAcceptMultishot f a l fl u)"
| "reserve (R_PrepConnect f a l u) = as_error (PrepConnect f a l u)"
| "reserve (R_PrepSend f b fl u) = as_error (PrepSend f b fl u)"
| "reserve (R_PrepRecv f b fl u) = as_error (PrepRecv f b fl u)"
| "reserve (R_PrepRecvMultishot f g fl u) = as_error (PrepRecvMultishot f g fl u)"
| "reserve (R_PrepClose f u) = as_error (PrepClose f u)"
| "reserve (R_PrepShutdown f h u) = as_error (PrepShutdown f h u)"
| "reserve (R_PrepSendmsg f m fl u) = as_error (PrepSendmsg f m fl u)"
| "reserve (R_PrepRecvmsg f m fl u) = as_error (PrepRecvmsg f m fl u)"
| "reserve (R_PrepSocket d t pr u) = as_error (PrepSocket d t pr u)"
| "reserve (R_PrepPollAdd f pm u) = as_error (PrepPollAdd f pm u)"
| "reserve (R_PrepPollAddMultishot f pm u) = as_error (PrepPollAddMultishot f pm u)"
| "reserve (R_PrepPollRemove t u) = as_error (PrepPollRemove t u)"
| "reserve (R_PrepOpenat d pa fl mo u) = as_error (PrepOpenat d pa fl mo u)"
| "reserve (R_PrepStatx d pa fl mk sb u) = as_error (PrepStatx d pa fl mk sb u)"
| "reserve (R_PrepSplice fi oi fo oo nb fl u) = as_error (PrepSplice fi oi fo oo nb fl u)"

primrec reserve_all :: "reservation list \<Rightarrow> returned list io" where
  "reserve_all [] = ret []"
| "reserve_all (c # cs) =
     seq (reserve c) (\<lambda>x. seq (reserve_all cs) (\<lambda>xs. ret (x # xs)))"

text \<open>
  Whether a call asks for an entry at all: the I/O builders return at once on an empty
  buffer.
\<close>

fun wants_entry :: "reservation \<Rightarrow> bool" where
  "wants_entry (R_PrepRead f b off u) = (len b \<noteq> 0)"
| "wants_entry (R_PrepWrite f b off u) = (len b \<noteq> 0)"
| "wants_entry (R_PrepReadFixed f b off i u) = (len b \<noteq> 0)"
| "wants_entry (R_PrepWriteFixed f b off i u) = (len b \<noteq> 0)"
| "wants_entry (R_PrepReadv f v off u) = (len v \<noteq> 0)"
| "wants_entry (R_PrepWritev f v off u) = (len v \<noteq> 0)"
| "wants_entry (R_PrepSend f b fl u) = (len b \<noteq> 0)"
| "wants_entry (R_PrepRecv f b fl u) = (len b \<noteq> 0)"
| "wants_entry _ = True"

text \<open>Success: a non-nil pointer or a nil error. Queue full: nil or \<open>ErrSQFull\<close>.\<close>

fun succeeded :: "returned \<Rightarrow> bool" where
  "succeeded (Pointer p) = (p \<noteq> None)"
| "succeeded (Error e) = (e = None)"

fun queue_full :: "returned \<Rightarrow> bool" where
  "queue_full (Pointer p) = (p = None)"
| "queue_full (Error e) = (e = Some ErrSQFull)"

text \<open>
  A ring as \<open>New\<close> leaves it when the kernel reports capacity \<open>C\<close>: open, nothing
  pending, nothing published that the kernel has not consumed, the index array and
  the entry array of \<open>C\<close> elements, mask \<open>C - 1\<close>, and both regions mapped.
\<close>

definition fresh_ring :: "u32 \<Rightarrow> world \<Rightarrow> bool" where
  "fresh_ring C w \<longleftrightarrow>
     C \<noteq> 0 \<and> \<not> closed (ring w) \<and> sqEntries (ring w) = C \<and> sqMask (ring w) = C - 1 \<and>
     sqPending (ring w) = 0 \<and> sqHead (mem w) = sqTail (mem w) \<and>
     length (sqArray (mem w)) = unat C \<and> length (sqes (mem w)) = unat C \<and>
     region_ok w (sqRing (ring w)) \<and> region_ok w (sqesMmap (ring w))"

text \<open>
  The submission side with capacity \<open>C\<close> and \<open>n\<close> entries reserved and not yet
  published, the kernel having consumed everything published before.
\<close>

definition sq_state :: "u32 \<Rightarrow> nat \<Rightarrow> world \<Rightarrow> bool" where
  "sq_state C n w \<longleftrightarrow>
     C \<noteq> 0 \<and> n \<le> unat C \<and> sqEntries (ring w) = C \<and> sqMask (ring w) = C - 1 \<and>
     sqPending (ring w) = of_nat n \<and> sqHead (mem w) = sqTail (mem w) \<and>
     length (sqArray (mem w)) = unat C \<and> length (sqes (mem w)) = unat C \<and>
     region_ok w (sqRing (ring w)) \<and> region_ok w (sqesMmap (ring w))"

text \<open>
  Two worlds that differ at most in the pending counter, the entry array, the index
  array and the log.
\<close>

definition reservation_frame :: "world \<Rightarrow> world \<Rightarrow> bool" where
  "reservation_frame w w' \<longleftrightarrow>
     w' = w\<lparr>ring := (ring w)\<lparr>sqPending := sqPending (ring w')\<rparr>,
            mem := (mem w)\<lparr>sqes := sqes (mem w'), sqArray := sqArray (mem w')\<rparr>,
            log := log w'\<rparr>"

section \<open>Observing a run\<close>

definition result :: "'a exec \<Rightarrow> 'a option" where
  "result x = (case x of Done a w \<Rightarrow> Some a | Abort e w \<Rightarrow> None)"

definition final :: "'a exec \<Rightarrow> world" where
  "final x = (case x of Done a w \<Rightarrow> w | Abort e w \<Rightarrow> w)"

definition aborted :: "'a exec \<Rightarrow> abort option" where
  "aborted x = (case x of Done a w \<Rightarrow> None | Abort e w \<Rightarrow> Some e)"

text \<open>The system calls among the events of a log.\<close>

fun calls :: "event list \<Rightarrow> syscall list" where
  "calls [] = []"
| "calls (Call c # es) = c # calls es"
| "calls (e # es) = calls es"

text \<open>The events a run from world \<open>w\<close> added to the log.\<close>

definition events_of :: "world \<Rightarrow> 'a exec \<Rightarrow> event list" where
  "events_of w x = drop (length (log w)) (log (final x))"

text \<open>The regions mapped and unmapped by a sequence of system calls, in order.\<close>

fun mmap_order :: "syscall list \<Rightarrow> u64 list" where
  "mmap_order [] = []"
| "mmap_order (SysMmap f off n # cs) = off # mmap_order cs"
| "mmap_order (c # cs) = mmap_order cs"

fun munmap_order :: "syscall list \<Rightarrow> u64 list" where
  "munmap_order [] = []"
| "munmap_order (SysMunmap h # cs) = h # munmap_order cs"
| "munmap_order (c # cs) = munmap_order cs"

text \<open>
  An enter call for one completion made through \<open>sys.Enter\<close>: no timespec goes with
  it, so nothing bounds how long the kernel may keep it.
\<close>

fun untimed_enter :: "syscall \<Rightarrow> bool" where
  "untimed_enter (SysEnter f s m fl) = (m = 1)"
| "untimed_enter _ = False"

text \<open>
  A run from \<open>w\<close> to \<open>w'\<close> that only added events to the log, every system call among
  them satisfying \<open>P\<close>.
\<close>

definition steps_with :: "(syscall \<Rightarrow> bool) \<Rightarrow> world \<Rightarrow> world \<Rightarrow> bool" where
  "steps_with P w w' \<longleftrightarrow>
     take (length (log w)) (log w') = log w \<and>
     list_all P (calls (drop (length (log w)) (log w')))"

section \<open>Example worlds\<close>

text \<open>
  A kernel that grants every request at once: setup returns descriptor 3 with four
  submission and eight completion entries, enter returns the number of entries it was
  asked to submit, every other call returns 0; it writes nothing to the shared memory.
\<close>

definition kernel4 :: "nat \<Rightarrow> syscall \<Rightarrow> kresp" where
  "kernel4 n c =
     \<lparr>kval = (case c of SysSetup e p \<Rightarrow> 3 | SysEnter f n m fl \<Rightarrow> uint n | _ \<Rightarrow> 0),
      kerrno = 0, kelapsed = 0,
      kwrites = (\<lambda>m. m),
      kparams = (case c of SysSetup e p \<Rightarrow> p\<lparr>SQEntries := 4, CQEntries := 8\<rparr>
                 | _ \<Rightarrow> Params_zero)\<rparr>"

definition CQE_zero :: CQE where
  "CQE_zero = \<lparr>UserData_cqe = 0, Res = 0, Flags_cqe = 0\<rparr>"

definition mem4 :: shm where
  "mem4 = \<lparr>sqHead = 0, sqTail = 0, sqFlags = 0, sqDropped = 0, sqRingEntries = 4,
     sqRingMask = 3, sqArray = [0, 0, 0, 0],
     sqes = [SQE_zero, SQE_zero, SQE_zero, SQE_zero],
     cqHead = 0, cqTail = 0, cqFlags = 0, cqOverflow = 0, cqRingEntries = 8,
     cqRingMask = 7,
     cqes = [CQE_zero, CQE_zero, CQE_zero, CQE_zero, CQE_zero, CQE_zero, CQE_zero,
       CQE_zero]\<rparr>"

text \<open>The world before \<open>New\<close>: nothing mapped, no ring yet.\<close>

definition boot :: world where
  "boot = \<lparr>ring = Ring_init 0 Params_zero, mem = mem4, mapped = {}, clock = 0, nsys = 0,
     kernel = kernel4, log = []\<rparr>"

text \<open>
  The world after \<open>New(4, opts...)\<close> under that kernel, \<open>p0\<close> being the parameters the
  options produce. \<open>New_boot\<close> below shows that \<open>New\<close> leads there.
\<close>

definition opened :: "Params \<Rightarrow> world" where
  "opened p0 =
     \<lparr>ring = \<lparr>fd = 3, params = p0\<lparr>SQEntries := 4, CQEntries := 8\<rparr>, features = Features p0,
        sqRing = Some IORING_OFF_SQ_RING, sqEntries = 4, sqMask = 3,
        sqesMmap = Some IORING_OFF_SQES, cqRing = Some IORING_OFF_CQ_RING, cqEntries = 8,
        cqMask = 7, sqPending = 0, closed = False\<rparr>,
      mem = mem4,
      mapped = {IORING_OFF_SQES, IORING_OFF_CQ_RING, IORING_OFF_SQ_RING},
      clock = 0, nsys = 4, kernel = kernel4,
      log = [Call (SysSetup 4 p0),
             Call (SysMmap 3 IORING_OFF_SQ_RING (uint (sqo_Array (SQOff p0) + 16))),
             Call (SysMmap 3 IORING_OFF_CQ_RING (uint (cqo_CQEs (CQOff p0) + 128))),
             Call (SysMmap 3 IORING_OFF_SQES 256),
             Load (Cell SqRingEntries), Load (Cell SqRingMask), Load (Cell CqRingEntries),
             Load (Cell CqRingMask)]\<rparr>"

definition world4 :: world where
  "world4 = opened Params_zero"

definition world4_sqpoll :: world where
  "world4_sqpoll = opened (WithSQPoll Params_zero)"

text \<open>Kernel-polled rings with one and with two entries reserved and not yet submitted.\<close>

definition sqpoll_one :: world where
  "sqpoll_one = final (PrepNop 7 world4_sqpoll)"

definition sqpoll_pending :: world where
  "sqpoll_pending = final (seq (PrepNop 1) (\<lambda>_. PrepNop 2) world4_sqpoll)"

definition empty_buf :: "u8 slice" where
  "empty_buf = \<lparr>sl_ptr = 0, sl_elems = []\<rparr>"

definition empty_iovecs :: "Iovec slice" where
  "empty_iovecs = \<lparr>sl_ptr = 0, sl_elems = []\<rparr>"

text \<open>The world in which \<open>New\<close> calls \<open>mapRings\<close>: setup done, nothing mapped yet.\<close>

definition pre_map :: world where
  "pre_map = boot\<lparr>ring := Ring_init 3 (Params_zero\<lparr>SQEntries := 4, CQEntries := 8\<rparr>),
     nsys := 1\<rparr>"

text \<open>An open ring with two entries pending; a ring closed with one entry pending; a closed ring.\<close>

definition pending2 :: world where
  "pending2 = final (seq (PrepNop 1) (\<lambda>_. PrepNop 2) world4)"

definition closed_pending :: world where
  "closed_pending = final (seq (PrepNop 1) (\<lambda>_. Close) world4)"

definition closed4 :: world where
  "closed4 = final (Close world4)"

text \<open>
  A kernel on which no completion arrives: every call comes back after one second,
  interrupted (error number 4, EINTR). \<open>stalled\<close> is the open ring on that kernel.
\<close>

definition slow_kernel :: "nat \<Rightarrow> syscall \<Rightarrow> kresp" where
  "slow_kernel n c =
     \<lparr>kval = 0, kerrno = 4, kelapsed = 1000000000, kwrites = (\<lambda>m. m), kparams = Params_zero\<rparr>"

definition stalled :: world where
  "stalled = world4\<lparr>kernel := slow_kernel\<rparr>"

text \<open>Four reservations by different calls, and a buffer of twelve bytes.\<close>

definition buf12 :: "u8 slice" where
  "buf12 = \<lparr>sl_ptr = 4096, sl_elems = [72, 101, 108, 108, 111, 44, 32, 114, 105, 110, 103, 33]\<rparr>"

definition four_calls :: "reservation list" where
  "four_calls = [R_PrepNop 1, R_PrepWrite 5 buf12 0 2, R_GetSQE, R_PrepRead 5 buf12 0 4]"

section \<open>Properties\<close>

lemmas io_defs = seq_def ret_def abort_with_def self_def update_ring_def
  accessible_def access_def atomic_LoadUint32_def atomic_StoreUint32_def sqe_ptr_def
  sqe_load_def sqe_store_def sqe_assign_def sqArray_store_def cqe_ptr_def cqe_load_def
  kernel_side_def trap_def errno_error_def Setup_def Enter_def EnterExt_def Register_def
  Mmap_def Munmap_def munmap_field_def syscall_Close_def time_Now_def

lemmas prep_defs = PrepNop_def PrepRead_def PrepWrite_def PrepReadFixed_def
  PrepWriteFixed_def PrepReadv_def PrepWritev_def PrepFsync_def PrepTimeout_def
  PrepTimeoutRemove_def PrepLinkTimeout_def PrepCancel_def PrepAccept_def
  PrepAcceptMultishot_def PrepConnect_def PrepSend_def PrepRecv_def PrepRecvMultishot_def
  PrepClose_def PrepShutdown_def PrepSendmsg_def PrepRecvmsg_def PrepSocket_def
  PrepPollAdd_def PrepPollAddMultishot_def PrepPollRemove_def PrepOpenat_def PrepStatx_def
  PrepSplice_def

lemmas const_defs = IORING_SETUP_SQPOLL_def IORING_SETUP_SQ_AFF_def
  IORING_FEAT_SINGLE_MMAP_def IORING_FEAT_EXT_ARG_def IORING_ENTER_GETEVENTS_def
  IORING_ENTER_SQ_WAKEUP_def IORING_ENTER_EXT_ARG_def IORING_SQ_NEED_WAKEUP_def
  IORING_OFF_SQ_RING_def IORING_OFF_CQ_RING_def IORING_OFF_SQES_def

lemma region_ok_update [simp]:
  "region_ok (w\<lparr>log := l\<rparr>) s = region_ok w s"
  "region_ok (w\<lparr>mem := m\<rparr>) s = region_ok w s"
  "region_ok (w\<lparr>ring := r\<rparr>) s = region_ok w s"
  "region_ok (w\<lparr>clock := c\<rparr>) s = region_ok w s"
  "region_ok (w\<lparr>nsys := n\<rparr>) s = region_ok w s"
  by (simp_all add: region_ok_def split: option.splits)

lemma result_final: "result x = Some a \<Longrightarrow> x = Done a (final x)"
  by (cases x) (simp_all add: result_def final_def)

subsection \<open>The example worlds are reachable\<close>

lemma New_boot:
  "Features (apply_opts opts Params_zero) AND IORING_FEAT_SINGLE_MMAP = 0 \<Longrightarrow>
   New 4 opts boot = Done None (opened (apply_opts opts Params_zero))"
  by (simp add: New_def boot_def io_defs region_ok_def mapRings_def kernel4_def Ring_init_def
      opened_def IORING_OFF_SQ_RING_def IORING_OFF_CQ_RING_def IORING_OFF_SQES_def Let_def
      EINVAL_def mem4_def)

lemma New_world4: "New 4 [] boot = Done None world4"
  using New_boot [of "[]"]
  by (simp add: world4_def apply_opts_def Params_zero_def)

lemma New_world4_sqpoll: "New 4 [WithSQPoll] boot = Done None world4_sqpoll"
  using New_boot [of "[WithSQPoll]"]
  by (simp add: world4_sqpoll_def apply_opts_def Params_zero_def WithSQPoll_def)

subsection \<open>Configuration options\<close>

lemma or_4_and_2:
  "(x OR (4::u32)) AND 2 = x AND 2"
  by (simp add: bit.conj_disj_distrib2)

text \<open>
  Claim C6, as the code has it. \<open>WithSQPollCPU\<close> stores the CPU index and sets the
  affinity flag \<open>IORING_SETUP_SQ_AFF\<close>; it leaves the \<open>IORING_SETUP_SQPOLL\<close> bit as it
  found it, so kernel-polled mode is on afterwards exactly when it was on before.
\<close>

theorem WithSQPollCPU_sets_cpu_and_affinity:
  "SQThreadCPU (WithSQPollCPU cpu p) = cpu \<and>
   Flags (WithSQPollCPU cpu p) = Flags p OR IORING_SETUP_SQ_AFF \<and>
   Flags (WithSQPollCPU cpu p) AND IORING_SETUP_SQPOLL = Flags p AND IORING_SETUP_SQPOLL"
  by (simp add: WithSQPollCPU_def IORING_SETUP_SQ_AFF_def IORING_SETUP_SQPOLL_def or_4_and_2)

text \<open>
  Claim C6 as stated fails: with \<open>WithSQPollCPU(3)\<close> as the only option, the parameters
  handed to setup have CPU index 3 and the \<open>IORING_SETUP_SQPOLL\<close> bit clear.
\<close>

theorem WithSQPollCPU_alone_leaves_sqpoll_clear:
  "SQThreadCPU (apply_opts [WithSQPollCPU 3] Params_zero) = 3 \<and>
   Flags (apply_opts [WithSQPollCPU 3] Params_zero) AND IORING_SETUP_SQPOLL = 0"
  by (simp add: apply_opts_def WithSQPollCPU_def Params_zero_def IORING_SETUP_SQ_AFF_def
      IORING_SETUP_SQPOLL_def)

subsection \<open>Setting flags with nothing pending\<close>

text \<open>
  Claim C10. When the pending counter is zero, \<open>SetSQEFlags\<close>, \<open>SetSQELink\<close> and
  \<open>SetSQEAsync\<close> return with the world as it was: no entry, index, tail or counter is
  written, and the memory is not even read.
\<close>

theorem SetSQEFlags_nothing_pending:
  "sqPending (ring w) = 0 \<Longrightarrow>
   SetSQEFlags flags w = Done () w \<and> SetSQELink w = Done () w \<and> SetSQEAsync w = Done () w"
  by (simp add: SetSQEFlags_def SetSQELink_def SetSQEAsync_def seq_def self_def ret_def)

theorem SetSQEFlags_nothing_pending_witness:
  "sqPending (ring world4) = 0 \<and>
   SetSQEFlags 4 world4 = Done () world4 \<and>
   SetSQELink world4 = Done () world4 \<and>
   SetSQEAsync world4 = Done () world4"
  using SetSQEFlags_nothing_pending [of world4 4]
  by (simp add: world4_def opened_def)

subsection \<open>Empty buffers\<close>

text \<open>
  Claim C7. Each of the eight I/O builders, given a buffer of length zero (an empty
  iovec slice for the vectored ones), returns nil at once and leaves the world as it
  was: no entry is reserved, the pending counter and the ring are unchanged.
\<close>

theorem Prep_empty_buffer:
  "len buf = 0 \<Longrightarrow> len iovecs = 0 \<Longrightarrow>
   PrepRead f buf offset userData w = Done None w \<and>
   PrepWrite f buf offset userData w = Done None w \<and>
   PrepReadFixed f buf offset bufIndex userData w = Done None w \<and>
   PrepWriteFixed f buf offset bufIndex userData w = Done None w \<and>
   PrepReadv f iovecs offset userData w = Done None w \<and>
   PrepWritev f iovecs offset userData w = Done None w \<and>
   PrepSend f buf flags userData w = Done None w \<and>
   PrepRecv f buf flags userData w = Done None w"
  by (simp add: PrepRead_def PrepWrite_def PrepReadFixed_def PrepWriteFixed_def PrepReadv_def
      PrepWritev_def PrepSend_def PrepRecv_def ret_def)

theorem Prep_empty_buffer_witness:
  "len empty_buf = 0 \<and> len empty_iovecs = 0 \<and>
   PrepRead 5 empty_buf 0 1 world4 = Done None world4 \<and>
   PrepWrite 5 empty_buf 0 1 world4 = Done None world4 \<and>
   PrepReadFixed 5 empty_buf 0 0 1 world4 = Done None world4 \<and>
   PrepWriteFixed 5 empty_buf 0 0 1 world4 = Done None world4 \<and>
   PrepReadv 5 empty_iovecs 0 1 world4 = Done None world4 \<and>
   PrepWritev 5 empty_iovecs 0 1 world4 = Done None world4 \<and>
   PrepSend 5 empty_buf 0 1 world4 = Done None world4 \<and>
   PrepRecv 5 empty_buf 0 1 world4 = Done None world4"
  using Prep_empty_buffer [of empty_buf empty_iovecs 5 0 1 world4 0 0]
  by (simp add: len_def empty_buf_def empty_iovecs_def)

subsection \<open>Submit\<close>

text \<open>
  Claim C1, as the code has it. On an open ring in kernel-polled mode whose
  needs-wakeup bit is clear, a \<open>Submit\<close> that has pending entries to publish stores the
  new tail, resets the pending counter, makes no system call, and returns the number
  of entries it published, which is positive, with a nil error.
\<close>

theorem Submit_sqpoll_no_wakeup:
  assumes "\<not> closed (ring w)" and "sqPending (ring w) \<noteq> 0"
    and "Flags (params (ring w)) AND IORING_SETUP_SQPOLL \<noteq> 0"
    and "sqFlags (mem w) AND IORING_SQ_NEED_WAKEUP = 0"
    and "region_ok w (sqRing (ring w))"
  shows "Submit w =
           Done (uint (sqPending (ring w)), None)
             (w\<lparr>ring := (ring w)\<lparr>sqPending := 0\<rparr>,
                mem := (mem w)\<lparr>sqTail := sqTail (mem w) + sqPending (ring w)\<rparr>,
                log := log w @ [Load (Cell SqTail), Store (Cell SqTail), Load (Cell SqFlags)]\<rparr>)
         \<and> calls (events_of w (Submit w)) = []
         \<and> 0 < uint (sqPending (ring w))"
proof -
  have pos: "0 < uint (sqPending (ring w))"
    using assms(2) by (simp add: word_neq_0_conv word_less_def)
  show ?thesis
    using assms pos
    by (simp add: Submit_def needsWakeup_def io_defs Let_def events_of_def final_def)
qed

theorem Submit_sqpoll_no_wakeup_witness:
  "\<not> closed (ring sqpoll_one) \<and> sqPending (ring sqpoll_one) \<noteq> 0 \<and>
   Flags (params (ring sqpoll_one)) AND IORING_SETUP_SQPOLL \<noteq> 0 \<and>
   sqFlags (mem sqpoll_one) AND IORING_SQ_NEED_WAKEUP = 0 \<and>
   region_ok sqpoll_one (sqRing (ring sqpoll_one)) \<and>
   result (Submit sqpoll_one) = Some (uint (sqPending (ring sqpoll_one)), None) \<and>
   calls (events_of sqpoll_one (Submit sqpoll_one)) = []"
proof -
  have h1: "\<not> closed (ring sqpoll_one)" by code_simp
  have h2: "sqPending (ring sqpoll_one) \<noteq> 0" by code_simp
  have h3: "Flags (params (ring sqpoll_one)) AND IORING_SETUP_SQPOLL \<noteq> 0" by code_simp
  have h4: "sqFlags (mem sqpoll_one) AND IORING_SQ_NEED_WAKEUP = 0" by code_simp
  have h5: "region_ok sqpoll_one (sqRing (ring sqpoll_one))" by code_simp
  note t = Submit_sqpoll_no_wakeup [OF h1 h2 h3 h4 h5]
  from t [THEN conjunct1]
  have r: "result (Submit sqpoll_one) = Some (uint (sqPending (ring sqpoll_one)), None)"
    by (simp add: result_def)
  from t [THEN conjunct2, THEN conjunct1]
  have c: "calls (events_of sqpoll_one (Submit sqpoll_one)) = []" .
  from h1 h2 h3 h4 h5 r c show ?thesis by blast
qed

text \<open>
  Claim C1 as stated fails in the value returned: after \<open>New(4, WithSQPoll())\<close> and two
  \<open>PrepNop\<close> calls, with the needs-wakeup bit clear, \<open>Submit\<close> makes no system call and
  returns 2, not 0.
\<close>

theorem Submit_sqpoll_returns_count:
  "Flags (params (ring sqpoll_pending)) AND IORING_SETUP_SQPOLL \<noteq> 0 \<and>
   sqFlags (mem sqpoll_pending) AND IORING_SQ_NEED_WAKEUP = 0 \<and>
   sqPending (ring sqpoll_pending) = 2 \<and>
   calls (events_of sqpoll_pending (Submit sqpoll_pending)) = [] \<and>
   result (Submit sqpoll_pending) = Some (2, None)"
  by code_simp

text \<open>
  Claim C4, as the code has it. Whenever \<open>Submit\<close> returns on an open ring, whether the
  enter call succeeded, failed or was not made, the pending counter is zero and the
  tail is the old tail plus the old pending count (in 32 bits). On a closed ring
  \<open>Submit\<close> returns \<open>ErrRingClosed\<close> and changes nothing.
\<close>

theorem Submit_pending_and_tail:
  "Submit w = Done (n, e) w' \<Longrightarrow>
   (if closed (ring w) then n = 0 \<and> e = Some ErrRingClosed \<and> w' = w
    else sqPending (ring w') = 0 \<and> sqTail (mem w') = sqTail (mem w) + sqPending (ring w))"
  by (auto simp: Submit_def needsWakeup_def io_defs Let_def split: if_splits)

theorem Submit_pending_and_tail_witness:
  "result (Submit pending2) = Some (2, None) \<and> \<not> closed (ring pending2) \<and>
   sqPending (ring pending2) = 2 \<and>
   calls (events_of pending2 (Submit pending2)) = [SysEnter 3 2 0 0] \<and>
   sqPending (ring (final (Submit pending2))) = 0 \<and>
   sqTail (mem (final (Submit pending2))) = sqTail (mem pending2) + sqPending (ring pending2)"
proof -
  have r: "result (Submit pending2) = Some (2, None)" by code_simp
  have o: "\<not> closed (ring pending2)" by code_simp
  have p: "sqPending (ring pending2) = 2" by code_simp
  have c: "calls (events_of pending2 (Submit pending2)) = [SysEnter 3 2 0 0]" by code_simp
  from Submit_pending_and_tail [OF result_final [OF r]] o
  have "sqPending (ring (final (Submit pending2))) = 0 \<and>
    sqTail (mem (final (Submit pending2))) = sqTail (mem pending2) + sqPending (ring pending2)"
    by simp
  with r o p c show ?thesis by blast
qed

text \<open>
  Claim C4 as stated fails on a closed ring: after \<open>New(4)\<close>, one \<open>PrepNop\<close> and
  \<open>Close\<close>, \<open>Submit\<close> returns \<open>ErrRingClosed\<close> with the pending counter still 1 and the
  tail where it was.
\<close>

theorem Submit_closed_keeps_pending:
  "closed (ring closed_pending) \<and> sqPending (ring closed_pending) = 1 \<and>
   result (Submit closed_pending) = Some (0, Some ErrRingClosed) \<and>
   sqPending (ring (final (Submit closed_pending))) = 1 \<and>
   sqTail (mem (final (Submit closed_pending))) = sqTail (mem closed_pending)"
  by code_simp

subsection \<open>Closed rings\<close>

lemma closed_update: "closed r \<Longrightarrow> r\<lparr>closed := True\<rparr> = r"
  by simp

lemma munmap_field_Done:
  "\<exists>w'. munmap_field fld w = Done () w' \<and> ring w' = ring w"
  by (simp add: munmap_field_def Munmap_def trap_def seq_def self_def ret_def Let_def
      split: option.splits)

lemma syscall_Close_Done:
  "\<exists>e w'. syscall_Close f w = Done e w' \<and> ring w' = ring w"
  by (simp add: syscall_Close_def trap_def seq_def ret_def Let_def)

lemma maybe_munmap_Done:
  "\<exists>w'. (if b then munmap_field fld else ret ()) w = Done () w' \<and> ring w' = ring w"
  using munmap_field_Done [of fld w] by (simp add: ret_def)

lemma Close_sets_closed: "closed (ring (final (Close w0)))"
proof (cases "closed (ring w0)")
  case True
  then show ?thesis
    by (simp add: Close_def seq_def self_def ret_def update_ring_def final_def)
next
  case False
  let ?w1 = "w0\<lparr>ring := (ring w0)\<lparr>closed := True\<rparr>\<rparr>"
  obtain w2 where 2: "(if Features (params (ring w0)) AND IORING_FEAT_SINGLE_MMAP = 0 \<and>
        cqRing (ring w0) \<noteq> None then munmap_field cqRing else ret ()) ?w1 = Done () w2"
    and r2: "ring w2 = ring ?w1"
    using maybe_munmap_Done by blast
  obtain w3 where 3: "(if sqRing (ring w0) \<noteq> None then munmap_field sqRing else ret ()) w2
        = Done () w3" and r3: "ring w3 = ring w2"
    using maybe_munmap_Done by blast
  obtain w4 where 4: "(if sqesMmap (ring w0) \<noteq> None then munmap_field sqesMmap else ret ()) w3
        = Done () w4" and r4: "ring w4 = ring w3"
    using maybe_munmap_Done by blast
  obtain e w5 where 5: "syscall_Close (fd (ring w0)) w4 = Done e w5" and r5: "ring w5 = ring w4"
    using syscall_Close_Done by blast
  have "Close w0 = Done e w5"
    using False 2 3 4 5
    by (simp add: Close_def seq_def self_def update_ring_def)
  then show ?thesis
    by (simp add: final_def r2 r3 r4 r5)
qed

text \<open>
  Claim C2, as the code has it. \<open>Close\<close> sets the closed flag. On a ring whose closed
  flag is set, \<open>Submit\<close>, \<open>SubmitAndWait\<close>, \<open>WaitCQE\<close>, \<open>WaitCQETimeout\<close> and
  \<open>WaitCQEContext\<close> return \<open>ErrRingClosed\<close>, and a second \<open>Close\<close> returns nil; each
  leaves the world as it was, so no mapped memory is read or written and no system
  call is made. These are the operations that test the flag.
\<close>

theorem closed_ring_refuses:
  "closed (ring (final (Close w0))) \<and>
   (closed (ring w) \<longrightarrow>
     Submit w = Done (0, Some ErrRingClosed) w \<and>
     SubmitAndWait n w = Done (0, Some ErrRingClosed) w \<and>
     WaitCQE w = Done (0, 0, 0, Some ErrRingClosed) w \<and>
     WaitCQETimeout fuel timeout w = Done (0, 0, 0, Some ErrRingClosed) w \<and>
     WaitCQEContext fuel ctx w = Done (0, 0, 0, Some ErrRingClosed) w \<and>
     Close w = Done None w)"
  using Close_sets_closed [of w0]
  by (simp add: Submit_def SubmitAndWait_def WaitCQE_def WaitCQETimeout_def WaitCQEContext_def
      Close_def seq_def self_def ret_def update_ring_def closed_update)

theorem closed_ring_refuses_witness:
  "closed (ring closed4) \<and>
   Submit closed4 = Done (0, Some ErrRingClosed) closed4 \<and>
   SubmitAndWait 1 closed4 = Done (0, Some ErrRingClosed) closed4 \<and>
   WaitCQE closed4 = Done (0, 0, 0, Some ErrRingClosed) closed4 \<and>
   WaitCQETimeout 5 Millisecond closed4 = Done (0, 0, 0, Some ErrRingClosed) closed4 \<and>
   WaitCQEContext 5 (\<lambda>t. False) closed4 = Done (0, 0, 0, Some ErrRingClosed) closed4 \<and>
   Close closed4 = Done None closed4"
proof -
  have h: "closed (ring closed4)" by code_simp
  from closed_ring_refuses [of world4 closed4 1 5 Millisecond "\<lambda>t. False"] h
  show ?thesis by blast
qed

text \<open>
  Claim C2 as stated fails for the operations that do not test the flag. After
  \<open>New(4)\<close> and \<open>Close\<close>, \<open>PeekCQE\<close> and \<open>GetSQE\<close>, whose results have no error
  component, return nothing: they go on to dereference \<open>cqHead\<close> and \<open>sqHead\<close> in
  the regions \<open>Close\<close> has unmapped, and fault there.
\<close>

theorem closed_ring_peek_faults:
  "closed (ring closed4) \<and>
   \<not> region_ok closed4 (cqRing (ring closed4)) \<and>
   \<not> region_ok closed4 (sqRing (ring closed4)) \<and>
   result (PeekCQE closed4) = None \<and>
   aborted (PeekCQE closed4) = Some (SegFault (Cell CqHead)) \<and>
   result (GetSQE closed4) = None \<and>
   aborted (GetSQE closed4) = Some (SegFault (Cell SqHead))"
  by code_simp

subsection \<open>Mapping and unmapping\<close>

lemma munmap_field_mapped:
  assumes "fld (ring w) = Some h" and "h \<in> mapped w"
  shows "\<exists>w'. munmap_field fld w = Done () w' \<and> ring w' = ring w \<and>
           log w' = log w @ [Call (SysMunmap h)] \<and>
           (\<forall>x. x \<noteq> h \<longrightarrow> (x \<in> mapped w') = (x \<in> mapped w))"
  using assms
  by (simp add: munmap_field_def Munmap_def trap_def seq_def self_def ret_def Let_def)

lemma syscall_Close_log:
  "\<exists>e w'. syscall_Close f w = Done e w' \<and> log w' = log w @ [Call (SysClose f)]"
  by (simp add: syscall_Close_def trap_def seq_def ret_def Let_def)

lemma offsets_distinct:
  "IORING_OFF_SQ_RING \<noteq> IORING_OFF_CQ_RING" "IORING_OFF_SQ_RING \<noteq> IORING_OFF_SQES"
  "IORING_OFF_CQ_RING \<noteq> IORING_OFF_SQES"
  by (simp_all add: IORING_OFF_SQ_RING_def IORING_OFF_CQ_RING_def IORING_OFF_SQES_def)

lemma Close_calls:
  assumes op: "\<not> closed (ring w)"
    and sq: "sqRing (ring w) = Some IORING_OFF_SQ_RING"
    and sqes: "sqesMmap (ring w) = Some IORING_OFF_SQES"
    and cq: "cqRing (ring w) = Some (if Features (params (ring w)) AND IORING_FEAT_SINGLE_MMAP \<noteq> 0
                            then IORING_OFF_SQ_RING else IORING_OFF_CQ_RING)"
    and m1: "IORING_OFF_SQ_RING \<in> mapped w" and m2: "IORING_OFF_SQES \<in> mapped w"
    and m3: "Features (params (ring w)) AND IORING_FEAT_SINGLE_MMAP = 0 \<longrightarrow> IORING_OFF_CQ_RING \<in> mapped w"
  shows "calls (events_of w (Close w)) =
     (if Features (params (ring w)) AND IORING_FEAT_SINGLE_MMAP \<noteq> 0 then []
      else [SysMunmap IORING_OFF_CQ_RING]) @
     [SysMunmap IORING_OFF_SQ_RING, SysMunmap IORING_OFF_SQES, SysClose (fd (ring w))]"
proof -
  let ?single = "Features (params (ring w)) AND IORING_FEAT_SINGLE_MMAP \<noteq> 0"
  let ?w1 = "w\<lparr>ring := (ring w)\<lparr>closed := True\<rparr>\<rparr>"
  let ?pre = "if ?single then [] else [Call (SysMunmap IORING_OFF_CQ_RING)]"
  have "\<exists>w2. (if Features (params (ring w)) AND IORING_FEAT_SINGLE_MMAP = 0 \<and>
          cqRing (ring w) \<noteq> None then munmap_field cqRing else ret ()) ?w1 = Done () w2 \<and>
        ring w2 = ring ?w1 \<and> log w2 = log w @ ?pre \<and>
        IORING_OFF_SQ_RING \<in> mapped w2 \<and> IORING_OFF_SQES \<in> mapped w2"
  proof (cases ?single)
    case True
    then show ?thesis using m1 m2 by (simp add: ret_def)
  next
    case False
    then have "cqRing (ring ?w1) = Some IORING_OFF_CQ_RING" and "IORING_OFF_CQ_RING \<in> mapped ?w1"
      using cq m3 by simp_all
    from munmap_field_mapped [of cqRing ?w1 IORING_OFF_CQ_RING, OF this] False cq m1 m2
      offsets_distinct
    show ?thesis by auto
  qed
  then obtain w2 where 2: "(if Features (params (ring w)) AND IORING_FEAT_SINGLE_MMAP = 0 \<and>
          cqRing (ring w) \<noteq> None then munmap_field cqRing else ret ()) ?w1 = Done () w2"
    and r2: "ring w2 = ring ?w1" and l2: "log w2 = log w @ ?pre"
    and a2: "IORING_OFF_SQ_RING \<in> mapped w2" and b2: "IORING_OFF_SQES \<in> mapped w2"
    by blast
  have "sqRing (ring w2) = Some IORING_OFF_SQ_RING"
    using r2 sq by simp
  from munmap_field_mapped [of sqRing w2 IORING_OFF_SQ_RING, OF this a2] obtain w3
    where 3: "munmap_field sqRing w2 = Done () w3" and r3: "ring w3 = ring w2"
      and l3: "log w3 = log w2 @ [Call (SysMunmap IORING_OFF_SQ_RING)]"
      and b3: "IORING_OFF_SQES \<in> mapped w3"
    using b2 offsets_distinct by auto
  have "sqesMmap (ring w3) = Some IORING_OFF_SQES"
    using r3 r2 sqes by simp
  from munmap_field_mapped [of sqesMmap w3 IORING_OFF_SQES, OF this b3] obtain w4
    where 4: "munmap_field sqesMmap w3 = Done () w4"
      and l4: "log w4 = log w3 @ [Call (SysMunmap IORING_OFF_SQES)]"
    by blast
  from syscall_Close_log [of "fd (ring w)" w4] obtain e w5
    where 5: "syscall_Close (fd (ring w)) w4 = Done e w5"
      and l5: "log w5 = log w4 @ [Call (SysClose (fd (ring w)))]"
    by blast
  have "Close w = Done e w5"
    using op sq sqes 2 3 4 5
    by (simp add: Close_def seq_def self_def update_ring_def)
  then show ?thesis
    by (simp add: events_of_def final_def l5 l4 l3 l2)
qed

lemma mapRings_success:
  assumes "mapRings w0 = Done None w"
  shows "sqRing (ring w) = Some IORING_OFF_SQ_RING \<and> sqesMmap (ring w) = Some IORING_OFF_SQES \<and>
    cqRing (ring w) = Some (if Features (params (ring w0)) AND IORING_FEAT_SINGLE_MMAP \<noteq> 0
                            then IORING_OFF_SQ_RING else IORING_OFF_CQ_RING) \<and>
    IORING_OFF_SQ_RING \<in> mapped w \<and> IORING_OFF_SQES \<in> mapped w \<and>
    (Features (params (ring w0)) AND IORING_FEAT_SINGLE_MMAP = 0 \<longrightarrow> IORING_OFF_CQ_RING \<in> mapped w) \<and>
    params (ring w) = params (ring w0) \<and>
    mmap_order (calls (events_of w0 (mapRings w0))) =
      (if Features (params (ring w0)) AND IORING_FEAT_SINGLE_MMAP \<noteq> 0
       then [IORING_OFF_SQ_RING, IORING_OFF_SQES]
       else [IORING_OFF_SQ_RING, IORING_OFF_CQ_RING, IORING_OFF_SQES])"
  using assms
  apply (simp add: mapRings_def io_defs Let_def events_of_def final_def split: if_splits)
  apply (auto simp: region_ok_def split: if_splits)
  done

text \<open>
  Claim C5, as the code has it. \<open>mapRings\<close> maps the submission ring, then the
  completion ring when the kernel does not advertise a single mapping, then the
  entry array. \<open>Close\<close>, on an open ring whose regions are those \<open>mapRings\<close> set up,
  unmaps the completion ring first when it is separate, then the submission ring,
  then the entry array, and then closes the ring descriptor: the order of mapping
  with the completion ring moved to the front, not its reverse.
\<close>

theorem Close_unmap_order:
  assumes "mapRings w0 = Done None w1"
    and "\<not> closed (ring w)"
    and "sqRing (ring w) = sqRing (ring w1)" and "cqRing (ring w) = cqRing (ring w1)"
    and "sqesMmap (ring w) = sqesMmap (ring w1)" and "params (ring w) = params (ring w1)"
    and "mapped w = mapped w1"
  shows "mmap_order (calls (events_of w0 (mapRings w0))) =
           (if Features (params (ring w)) AND IORING_FEAT_SINGLE_MMAP \<noteq> 0
            then [IORING_OFF_SQ_RING, IORING_OFF_SQES]
            else [IORING_OFF_SQ_RING, IORING_OFF_CQ_RING, IORING_OFF_SQES]) \<and>
         calls (events_of w (Close w)) =
           (if Features (params (ring w)) AND IORING_FEAT_SINGLE_MMAP \<noteq> 0 then []
            else [SysMunmap IORING_OFF_CQ_RING]) @
           [SysMunmap IORING_OFF_SQ_RING, SysMunmap IORING_OFF_SQES, SysClose (fd (ring w))]"
proof -
  note m = mapRings_success [OF assms(1)]
  have p: "params (ring w) = params (ring w0)"
    using m assms(6) by simp
  have "calls (events_of w (Close w)) =
           (if Features (params (ring w)) AND IORING_FEAT_SINGLE_MMAP \<noteq> 0 then []
            else [SysMunmap IORING_OFF_CQ_RING]) @
           [SysMunmap IORING_OFF_SQ_RING, SysMunmap IORING_OFF_SQES, SysClose (fd (ring w))]"
    using m assms(2-7) p by (intro Close_calls) simp_all
  moreover have "mmap_order (calls (events_of w0 (mapRings w0))) =
           (if Features (params (ring w)) AND IORING_FEAT_SINGLE_MMAP \<noteq> 0
            then [IORING_OFF_SQ_RING, IORING_OFF_SQES]
            else [IORING_OFF_SQ_RING, IORING_OFF_CQ_RING, IORING_OFF_SQES])"
    using m p by simp
  ultimately show ?thesis by blast
qed

theorem Close_unmap_order_witness:
  "result (mapRings pre_map) = Some None \<and>
   \<not> closed (ring (final (mapRings pre_map))) \<and>
   mmap_order (calls (events_of pre_map (mapRings pre_map))) =
     [IORING_OFF_SQ_RING, IORING_OFF_CQ_RING, IORING_OFF_SQES] \<and>
   calls (events_of (final (mapRings pre_map)) (Close (final (mapRings pre_map)))) =
     [SysMunmap IORING_OFF_CQ_RING, SysMunmap IORING_OFF_SQ_RING, SysMunmap IORING_OFF_SQES,
      SysClose 3]"
proof -
  let ?w = "final (mapRings pre_map)"
  have r: "result (mapRings pre_map) = Some None" by code_simp
  have o: "\<not> closed (ring ?w)" by code_simp
  have f: "Features (params (ring ?w)) AND IORING_FEAT_SINGLE_MMAP = 0" by code_simp
  have d: "fd (ring ?w) = 3" by code_simp
  from Close_unmap_order [OF result_final [OF r] o refl refl refl refl refl] f d
  have "mmap_order (calls (events_of pre_map (mapRings pre_map))) =
     [IORING_OFF_SQ_RING, IORING_OFF_CQ_RING, IORING_OFF_SQES] \<and>
   calls (events_of ?w (Close ?w)) =
     [SysMunmap IORING_OFF_CQ_RING, SysMunmap IORING_OFF_SQ_RING, SysMunmap IORING_OFF_SQES,
      SysClose 3]"
    by simp
  with r o show ?thesis by blast
qed

text \<open>
  Claim C5 as stated fails: with separate rings \<open>mapRings\<close> maps the submission ring,
  the completion ring and the entry array in this order, and \<open>Close\<close> unmaps the
  completion ring, the submission ring and the entry array in this order, which is
  not the reverse.
\<close>

theorem Close_order_not_reversed:
  "mmap_order (calls (events_of pre_map (mapRings pre_map))) =
     [IORING_OFF_SQ_RING, IORING_OFF_CQ_RING, IORING_OFF_SQES] \<and>
   munmap_order (calls (events_of (final (mapRings pre_map)) (Close (final (mapRings pre_map))))) =
     [IORING_OFF_CQ_RING, IORING_OFF_SQ_RING, IORING_OFF_SQES] \<and>
   munmap_order (calls (events_of (final (mapRings pre_map)) (Close (final (mapRings pre_map))))) \<noteq>
     rev (mmap_order (calls (events_of pre_map (mapRings pre_map))))"
  by code_simp

subsection \<open>Reservations up to capacity\<close>

lemma idx_in_range: "C \<noteq> 0 \<Longrightarrow> unat (x AND (C - 1)) < unat (C::u32)"
proof -
  assume C: "C \<noteq> 0"
  have "x AND (C - 1) \<le> C - 1"
    by (rule word_and_le1)
  then have "unat (x AND (C - 1)) \<le> unat (C - 1)"
    by (simp add: word_le_nat_alt)
  moreover have "unat (C - 1) < unat C"
    using C by (simp add: unat_minus_one unat_gt_0)
  ultimately show ?thesis by simp
qed

lemma pending_lt: "n < unat (C::u32) \<Longrightarrow> \<not> C \<le> of_nat n"
proof -
  assume n: "n < unat C"
  have "unat C < 2 ^ 32"
    using unsigned_less [of C, where 'a = nat] by simp
  with n have "unat (of_nat n :: u32) = n"
    by (simp add: unat_of_nat)
  with n show ?thesis
    by (simp add: word_le_nat_alt)
qed

lemma getSQE_step:
  assumes "sq_state C n w" and "n < unat C"
  shows "\<exists>i w'. getSQE w = Done (Some i) w' \<and> sq_state C (Suc n) w'"
  using assms pending_lt [of n C] idx_in_range [of C]
  by (simp add: sq_state_def getSQE_def io_defs Let_def)

lemma prep_step:
  assumes "sq_state C n w" and "n < unat C"
  shows "\<exists>w'. prep fill w = Done None w' \<and> sq_state C (Suc n) w'"
  using assms pending_lt [of n C] idx_in_range [of C]
  by (simp add: sq_state_def prep_def getSQE_def io_defs Let_def)

lemma getSQE_full:
  assumes "sq_state C (unat C) w"
  shows "\<exists>w'. getSQE w = Done None w' \<and> ring w' = ring w \<and> mem w' = mem w"
  using assms
  by (simp add: sq_state_def getSQE_def io_defs Let_def)

lemma prep_full:
  assumes "sq_state C (unat C) w"
  shows "\<exists>w'. prep fill w = Done (Some ErrSQFull) w' \<and> ring w' = ring w \<and> mem w' = mem w"
  using assms
  by (simp add: sq_state_def prep_def getSQE_def io_defs Let_def)


lemma reserve_shape:
  "reserve c = seq getSQE (\<lambda>p. ret (Pointer p)) \<or>
   (\<exists>fill. reserve c = as_error (prep fill)) \<or>
   (\<not> wants_entry c \<and> reserve c = as_error (ret None))"
  by (cases c) (auto simp: prep_defs GetSQE_def)

lemma reserve_step:
  assumes "sq_state C n w" and "n < unat C" and "wants_entry c"
  shows "\<exists>r w'. reserve c w = Done r w' \<and> succeeded r \<and> sq_state C (Suc n) w'"
proof -
  from reserve_shape [of c] assms(3)
  consider "reserve c = seq getSQE (\<lambda>p. ret (Pointer p))"
    | fill where "reserve c = as_error (prep fill)"
    by blast
  then show ?thesis
  proof cases
    case 1
    from getSQE_step [OF assms(1,2)] obtain i w'
      where "getSQE w = Done (Some i) w'" and "sq_state C (Suc n) w'"
      by blast
    with 1 show ?thesis
      by (simp add: seq_def ret_def)
  next
    case 2
    from prep_step [OF assms(1,2)] obtain w'
      where "prep fill w = Done None w'" and "sq_state C (Suc n) w'"
      by blast
    with 2 show ?thesis
      by (simp add: as_error_def seq_def ret_def)
  qed
qed

lemma reserve_full:
  assumes "sq_state C (unat C) w" and "wants_entry c"
  shows "\<exists>r w'. reserve c w = Done r w' \<and> queue_full r \<and> ring w' = ring w \<and> mem w' = mem w"
proof -
  from reserve_shape [of c] assms(2)
  consider "reserve c = seq getSQE (\<lambda>p. ret (Pointer p))"
    | fill where "reserve c = as_error (prep fill)"
    by blast
  then show ?thesis
  proof cases
    case 1
    from getSQE_full [OF assms(1)] obtain w'
      where "getSQE w = Done None w'" and "ring w' = ring w" and "mem w' = mem w"
      by blast
    with 1 show ?thesis
      by (simp add: seq_def ret_def)
  next
    case 2
    from prep_full [OF assms(1)] obtain w'
      where "prep fill w = Done (Some ErrSQFull) w'" and "ring w' = ring w" and "mem w' = mem w"
      by blast
    with 2 show ?thesis
      by (simp add: as_error_def seq_def ret_def)
  qed
qed

lemma reserve_all_steps:
  assumes "sq_state C n w" and "n + length cs \<le> unat C" and "\<forall>c\<in>set cs. wants_entry c"
  shows "\<exists>rs w'. reserve_all cs w = Done rs w' \<and> length rs = length cs \<and>
           (\<forall>r\<in>set rs. succeeded r) \<and> sq_state C (n + length cs) w'"
  using assms
proof (induction cs arbitrary: n w)
  case Nil
  then show ?case by (simp add: ret_def)
next
  case (Cons c cs)
  from Cons.prems have n: "n < unat C" and c: "wants_entry c" by simp_all
  from reserve_step [OF Cons.prems(1) n c] obtain r w1
    where r: "reserve c w = Done r w1" "succeeded r" and w1: "sq_state C (Suc n) w1"
    by blast
  from Cons.prems have "Suc n + length cs \<le> unat C" and "\<forall>c\<in>set cs. wants_entry c"
    by simp_all
  from Cons.IH [OF w1 this] obtain rs w'
    where rs: "reserve_all cs w1 = Done rs w'" "length rs = length cs"
      "\<forall>r\<in>set rs. succeeded r" "sq_state C (Suc n + length cs) w'"
    by blast
  from r rs show ?case
    by (simp add: seq_def ret_def)
qed

text \<open>
  Claim C3. On a freshly created ring of capacity \<open>C\<close>, any \<open>C\<close> reservations in a
  row (calls of \<open>GetSQE\<close> or of builders that ask for an entry) all succeed, and the
  next one reports a full queue (\<open>ErrSQFull\<close>, or nil from \<open>GetSQE\<close>) and leaves the
  ring and the shared memory, hence pending counter, tail and index array, as they
  were.
\<close>

theorem capacity_reservations_then_full:
  assumes "fresh_ring C w" and "length cs = unat C" and "\<forall>c\<in>set cs. wants_entry c"
    and "wants_entry c'"
  shows "\<exists>rs w'. reserve_all cs w = Done rs w' \<and> length rs = unat C \<and>
           (\<forall>r\<in>set rs. succeeded r) \<and>
           (\<exists>r w''. reserve c' w' = Done r w'' \<and> queue_full r \<and>
              ring w'' = ring w' \<and> mem w'' = mem w')"
proof -
  from assms(1) have "sq_state C 0 w"
    by (simp add: fresh_ring_def sq_state_def)
  from reserve_all_steps [OF this, of cs] assms(2,3) obtain rs w'
    where rs: "reserve_all cs w = Done rs w'" "length rs = length cs"
      "\<forall>r\<in>set rs. succeeded r" and w': "sq_state C (unat C) w'"
    by auto
  from reserve_full [OF w' assms(4)] rs assms(2) show ?thesis
    by simp
qed


theorem capacity_reservations_then_full_witness:
  "fresh_ring 4 world4 \<and> length four_calls = unat (4 :: u32) \<and>
   list_all wants_entry four_calls \<and> wants_entry (R_PrepNop 5) \<and>
   (\<exists>rs w'. reserve_all four_calls world4 = Done rs w' \<and> length rs = unat (4 :: u32) \<and>
      (\<forall>r\<in>set rs. succeeded r) \<and>
      (\<exists>r w''. reserve (R_PrepNop 5) w' = Done r w'' \<and> queue_full r \<and>
         ring w'' = ring w' \<and> mem w'' = mem w'))"
proof -
  have h1: "fresh_ring 4 world4" by code_simp
  have h2: "length four_calls = unat (4 :: u32)" by code_simp
  have h3: "\<forall>c\<in>set four_calls. wants_entry c" by code_simp
  have h4: "wants_entry (R_PrepNop 5)" by simp
  have h3': "list_all wants_entry four_calls"
    using h3 by (simp add: list_all_iff)
  from capacity_reservations_then_full [OF h1 h2 h3 h4] h1 h2 h3' h4
  show ?thesis by blast
qed

subsection \<open>Reservations do not publish\<close>

lemma frame_iff:
  "reservation_frame w w' \<longleftrightarrow>
     (\<exists>p es ix lg. w' = w\<lparr>ring := (ring w)\<lparr>sqPending := p\<rparr>,
                           mem := (mem w)\<lparr>sqes := es, sqArray := ix\<rparr>, log := lg\<rparr>)"
proof
  assume "reservation_frame w w'"
  then show "\<exists>p es ix lg. w' = w\<lparr>ring := (ring w)\<lparr>sqPending := p\<rparr>,
                           mem := (mem w)\<lparr>sqes := es, sqArray := ix\<rparr>, log := lg\<rparr>"
    unfolding reservation_frame_def by blast
next
  assume "\<exists>p es ix lg. w' = w\<lparr>ring := (ring w)\<lparr>sqPending := p\<rparr>,
                           mem := (mem w)\<lparr>sqes := es, sqArray := ix\<rparr>, log := lg\<rparr>"
  then obtain p es ix lg where "w' = w\<lparr>ring := (ring w)\<lparr>sqPending := p\<rparr>,
                           mem := (mem w)\<lparr>sqes := es, sqArray := ix\<rparr>, log := lg\<rparr>"
    by blast
  then show "reservation_frame w w'"
    by (simp add: reservation_frame_def)
qed

lemma frame_refl: "reservation_frame w w"
  by (simp add: reservation_frame_def)

lemma frame_trans:
  assumes "reservation_frame w w'" and "reservation_frame w' w''"
  shows "reservation_frame w w''"
proof -
  from assms(1) obtain p es ix lg where 1: "w' = w\<lparr>ring := (ring w)\<lparr>sqPending := p\<rparr>,
                           mem := (mem w)\<lparr>sqes := es, sqArray := ix\<rparr>, log := lg\<rparr>"
    unfolding frame_iff by blast
  from assms(2) obtain p' es' ix' lg' where 2: "w'' = w'\<lparr>ring := (ring w')\<lparr>sqPending := p'\<rparr>,
                           mem := (mem w')\<lparr>sqes := es', sqArray := ix'\<rparr>, log := lg'\<rparr>"
    unfolding frame_iff by blast
  have "w'' = w\<lparr>ring := (ring w)\<lparr>sqPending := p'\<rparr>,
                 mem := (mem w)\<lparr>sqes := es', sqArray := ix'\<rparr>, log := lg'\<rparr>"
    unfolding 2 1 by simp
  then show ?thesis
    unfolding frame_iff by blast
qed

lemma final_seq:
  "final (seq m f w) = (case m w of Done a w' \<Rightarrow> final (f a w') | Abort x w' \<Rightarrow> w')"
  by (simp add: seq_def final_def split: exec.splits)

lemma final_seq_ret: "final (seq m (\<lambda>x. ret (g x)) w) = final (m w)"
  by (simp add: seq_def ret_def final_def split: exec.splits)

lemma getSQE_frame: "reservation_frame w (final (getSQE w))"
  by (simp add: reservation_frame_def getSQE_def io_defs final_def Let_def)

lemma prep_frame: "reservation_frame w (final (prep fill w))"
  by (simp add: reservation_frame_def prep_def getSQE_def io_defs final_def Let_def)

lemma reserve_frame: "reservation_frame w (final (reserve c w))"
proof -
  from reserve_shape [of c]
  consider "reserve c = seq getSQE (\<lambda>p. ret (Pointer p))"
    | fill where "reserve c = as_error (prep fill)"
    | "reserve c = as_error (ret None)"
    by blast
  then show ?thesis
  proof cases
    case 1
    then show ?thesis by (simp add: final_seq_ret getSQE_frame)
  next
    case 2
    then show ?thesis by (simp add: as_error_def final_seq_ret prep_frame)
  next
    case 3
    then show ?thesis by (simp add: as_error_def seq_def ret_def final_def frame_refl)
  qed
qed

lemma reserve_all_frame: "reservation_frame w (final (reserve_all cs w))"
proof (induction cs arbitrary: w)
  case Nil
  show ?case by (simp add: ret_def final_def frame_refl)
next
  case (Cons c cs)
  show ?case
  proof (cases "reserve c w")
    case (Done r w1)
    have "reservation_frame w w1"
      using reserve_frame [of w c] Done by (simp add: final_def)
    moreover have "final (reserve_all (c # cs) w) = final (reserve_all cs w1)"
      using Done by (simp add: seq_def ret_def final_def split: exec.splits)
    ultimately show ?thesis
      using Cons.IH [of w1] frame_trans by simp
  next
    case (Abort x w1)
    have "reservation_frame w w1"
      using reserve_frame [of w c] Abort by (simp add: final_def)
    moreover have "final (reserve_all (c # cs) w) = w1"
      using Abort by (simp add: final_seq)
    ultimately show ?thesis by simp
  qed
qed

text \<open>
  Claim C9. After any number of reservations in a row (calls of \<open>GetSQE\<close> or of
  builders, whether they succeed, find the queue full or stop abnormally), the
  submission tail in the shared memory is what it was, and the world differs from
  the one before at most in the pending counter, the entry array, the index array
  and the log.
\<close>

theorem reservations_leave_tail:
  "sqTail (mem (final (reserve_all cs w))) = sqTail (mem w) \<and>
   reservation_frame w (final (reserve_all cs w))"
proof -
  have f: "reservation_frame w (final (reserve_all cs w))"
    by (rule reserve_all_frame)
  then obtain p es ix lg where "final (reserve_all cs w) =
      w\<lparr>ring := (ring w)\<lparr>sqPending := p\<rparr>,
        mem := (mem w)\<lparr>sqes := es, sqArray := ix\<rparr>, log := lg\<rparr>"
    unfolding frame_iff by blast
  then have "sqTail (mem (final (reserve_all cs w))) = sqTail (mem w)"
    by simp
  with f show ?thesis by simp
qed


theorem reservations_leave_tail_witness:
  "result (reserve_all four_calls world4) =
     Some [Error None, Error None, Pointer (Some 2), Error None] \<and>
   sqPending (ring (final (reserve_all four_calls world4))) = 4 \<and>
   sqTail (mem world4) = 0 \<and>
   sqTail (mem (final (reserve_all four_calls world4))) = sqTail (mem world4) \<and>
   reservation_frame world4 (final (reserve_all four_calls world4))"
proof -
  have r: "result (reserve_all four_calls world4) =
     Some [Error None, Error None, Pointer (Some 2), Error None]" by code_simp
  have p: "sqPending (ring (final (reserve_all four_calls world4))) = 4" by code_simp
  have t: "sqTail (mem world4) = 0" by code_simp
  from reservations_leave_tail [of four_calls world4] r p t
  show ?thesis by blast
qed

subsection \<open>The timed wait without the extended argument\<close>

lemma calls_append: "calls (xs @ ys) = calls xs @ calls ys"
  by (induction xs rule: calls.induct) simp_all

lemma steps_with_iff:
  "steps_with P w w' \<longleftrightarrow> (\<exists>es. log w' = log w @ es \<and> list_all P (calls es))"
proof
  assume "steps_with P w w'"
  then have "log w' = log w @ drop (length (log w)) (log w')"
    and "list_all P (calls (drop (length (log w)) (log w')))"
    by (simp_all add: steps_with_def) (metis append_take_drop_id)
  then show "\<exists>es. log w' = log w @ es \<and> list_all P (calls es)"
    by blast
next
  assume "\<exists>es. log w' = log w @ es \<and> list_all P (calls es)"
  then show "steps_with P w w'"
    by (auto simp: steps_with_def)
qed

lemma steps_refl: "steps_with P w w"
  by (simp add: steps_with_def)

lemma steps_trans:
  assumes "steps_with P w w1" and "steps_with P w1 w2"
  shows "steps_with P w w2"
  using assms by (auto simp: steps_with_iff calls_append)

lemma steps_seq:
  assumes "steps_with P w (final (m w))"
    and "\<And>a w1. m w = Done a w1 \<Longrightarrow> steps_with P w1 (final (f a w1))"
  shows "steps_with P w (final (seq m f w))"
proof (cases "m w")
  case (Done a w1)
  with assms(1) have "steps_with P w w1" by (simp add: final_def)
  moreover from Done assms(2) have "steps_with P w1 (final (f a w1))" by blast
  ultimately show ?thesis
    using Done steps_trans by (simp add: final_seq)
next
  case (Abort x w1)
  with assms(1) show ?thesis by (simp add: seq_def final_def)
qed

lemma PeekCQE_steps: "steps_with P w (final (PeekCQE w))"
  by (simp add: steps_with_def PeekCQE_def io_defs final_def Let_def)

lemma time_Now_steps: "steps_with P w (final (time_Now w))"
  by (simp add: steps_with_def time_Now_def final_def)

lemma ret_steps: "steps_with P w (final (ret a w))"
  by (simp add: steps_with_def ret_def final_def)

lemma SubmitAndWait_steps: "steps_with untimed_enter w (final (SubmitAndWait 1 w))"
  by (simp add: steps_with_def SubmitAndWait_def needsWakeup_def io_defs final_def Let_def)

lemma poll_loop_steps:
  "steps_with untimed_enter w (final (waitCQETimeoutPoll_loop n deadline w))"
proof (induction n arbitrary: w)
  case 0
  show ?case by (simp add: abort_with_def final_def steps_refl)
next
  case (Suc n)
  show ?case
    by (auto intro!: steps_seq PeekCQE_steps time_Now_steps SubmitAndWait_steps ret_steps Suc.IH
        simp: Let_def split: prod.splits)
qed

text \<open>
  Whatever the kernel does and however long the loop runs, every system call
  \<open>waitCQETimeoutPoll\<close> makes is an enter call for one completion without a timespec.
\<close>

lemma poll_calls_untimed:
  "list_all untimed_enter (calls (events_of w (waitCQETimeoutPoll fuel timeout w)))"
proof -
  have "steps_with untimed_enter w (final (waitCQETimeoutPoll fuel timeout w))"
    unfolding waitCQETimeoutPoll_def
    by (intro steps_seq time_Now_steps poll_loop_steps)
  then show ?thesis
    by (simp add: steps_with_def events_of_def)
qed

text \<open>
  Claim C8 fails on the code. \<open>waitCQETimeoutPoll\<close> computes \<open>sleepTime\<close>, the smaller
  of the remaining time and 10 ms, and never uses it: the wait in the loop is
  \<open>SubmitAndWait(1)\<close>, an enter call for one completion that carries no time limit
  (\<open>poll_calls_untimed\<close> above). On a ring without the extended-argument feature, with
  no completion arriving and the enter call coming back interrupted after one second,
  a wait with a timeout of one millisecond makes that one call, treats the
  interruption as continue, and reports \<open>ETIME\<close> a full second after it started.
\<close>

theorem timed_wait_poll_unbounded:
  "features (ring stalled) AND IORING_FEAT_EXT_ARG = 0 \<and>
   result (WaitCQETimeout 2 Millisecond stalled) = Some (0, 0, 0, Some ETIME) \<and>
   calls (events_of stalled (WaitCQETimeout 2 Millisecond stalled)) =
     [SysEnter 3 0 1 IORING_ENTER_GETEVENTS] \<and>
   clock (final (WaitCQETimeout 2 Millisecond stalled)) - clock stalled = 1000 * Millisecond"
  by (simp add: stalled_def slow_kernel_def world4_def opened_def mem4_def Params_zero_def
      WaitCQETimeout_def waitCQETimeoutPoll_def PeekCQE_def HasFeature_def SubmitAndWait_def
      needsWakeup_def io_defs final_def region_ok_def const_defs events_of_def result_def
      Millisecond_def EINTR_def ETIME_def Let_def numeral_2_eq_2)


end
